theory Spec2Isabelle
  imports Complex_Main "HOL-Library.Sublist" "HOL-Library.List_Lexorder" "HOL-Library.Char_ord"
begin

section \<open>Floating-point values and pandas series\<close>

text \<open>
  The program computes on float64 columns of a pandas DataFrame. A value is modelled as
  an exact real number or one of the IEEE special values. The special values matter
  because pandas produces them: \<open>shift\<close>, \<open>diff\<close> and an incomplete rolling window
  give NaN, and a float division by zero gives an infinity or NaN and raises nothing.

  This is an idealisation of float64. The rounding of a result inside the range of
  float64 is not modelled. The two zeros are one (\<open>Fin 0\<close>): the sign of a zero shows
  only in the sign of the infinity that a division by it gives, and the program divides
  in one place, the RSI expression \<open>100 - 100 / (1 + rs)\<close>, whose value is the same for
  both infinities. What is kept of rounding is where a quotient leaves the range: it
  becomes a zero when it is too small, an infinity when it is too large (\<open>float64\<close>
  below).
\<close>

datatype fl = is_Fin: Fin (un_Fin: real) | PInf | NInf | NaN

fun fneg :: "fl \<Rightarrow> fl" where
  "fneg (Fin x) = Fin (- x)"
| "fneg PInf = NInf"
| "fneg NInf = PInf"
| "fneg NaN = NaN"

fun fadd :: "fl \<Rightarrow> fl \<Rightarrow> fl" where
  "fadd NaN b = NaN"
| "fadd a NaN = NaN"
| "fadd (Fin x) (Fin y) = Fin (x + y)"
| "fadd PInf NInf = NaN"
| "fadd NInf PInf = NaN"
| "fadd PInf b = PInf"
| "fadd a PInf = PInf"
| "fadd NInf b = NInf"
| "fadd a NInf = NInf"

definition fsub :: "fl \<Rightarrow> fl \<Rightarrow> fl" where
  "fsub a b = fadd a (fneg b)"

fun fsign :: "fl \<Rightarrow> int" where
  "fsign (Fin x) = (if x < 0 then - 1 else if x = 0 then 0 else 1)"
| "fsign PInf = 1"
| "fsign NInf = - 1"
| "fsign NaN = 0"

fun fmul :: "fl \<Rightarrow> fl \<Rightarrow> fl" where
  "fmul NaN b = NaN"
| "fmul a NaN = NaN"
| "fmul (Fin x) (Fin y) = Fin (x * y)"
| "fmul a b = (if fsign a * fsign b = 0 then NaN else if 0 < fsign a * fsign b then PInf else NInf)"

text \<open>
  The float64 that a real quotient is rounded to, as far as the model follows it: zero
  up to half the smallest positive float64 (\<open>2\<^sup>-\<^sup>1\<^sup>0\<^sup>7\<^sup>4\<close>), an infinity from the largest
  float64 plus half a unit in its last place, the quotient itself in between.
\<close>

definition float64 :: "real \<Rightarrow> fl" where
  "float64 x =
     (if \<bar>x\<bar> \<le> 1 / 2 ^ 1075 then Fin 0
      else if 2 ^ 1024 - 2 ^ 970 \<le> \<bar>x\<bar> then (if 0 < x then PInf else NInf)
      else Fin x)"

text \<open>
  Division as numpy does it on float64: a finite non-zero value over zero is an infinity
  (with the sign of the numerator here, where zero has no sign), zero over zero is NaN,
  a finite value over an infinity is zero.
\<close>

fun fdiv :: "fl \<Rightarrow> fl \<Rightarrow> fl" where
  "fdiv NaN b = NaN"
| "fdiv a NaN = NaN"
| "fdiv (Fin x) (Fin y) =
     (if y = 0 then (if x = 0 then NaN else if 0 < x then PInf else NInf) else float64 (x / y))"
| "fdiv (Fin x) b = Fin 0"
| "fdiv PInf (Fin y) = (if y < 0 then NInf else PInf)"
| "fdiv NInf (Fin y) = (if y < 0 then PInf else NInf)"
| "fdiv a b = NaN"

fun fabs :: "fl \<Rightarrow> fl" where
  "fabs (Fin x) = Fin \<bar>x\<bar>"
| "fabs PInf = PInf"
| "fabs NInf = PInf"
| "fabs NaN = NaN"

text \<open>Comparisons: every comparison with NaN is false.\<close>

fun flt :: "fl \<Rightarrow> fl \<Rightarrow> bool" where
  "flt NaN b = False"
| "flt a NaN = False"
| "flt (Fin x) (Fin y) = (x < y)"
| "flt a NInf = False"
| "flt NInf b = True"
| "flt PInf b = False"
| "flt a PInf = True"

definition fgt :: "fl \<Rightarrow> fl \<Rightarrow> bool" where
  "fgt a b = flt b a"

text \<open>\<open>np.maximum\<close>: the larger value, NaN when either one is NaN.\<close>

definition fmaximum :: "fl \<Rightarrow> fl \<Rightarrow> fl" where
  "fmaximum a b = (if a = NaN \<or> b = NaN then NaN else if flt a b then b else a)"

text \<open>\<open>Series.tail(k)\<close>: the last \<open>k\<close> rows, all of them when there are fewer.\<close>

definition tail :: "nat \<Rightarrow> 'a list \<Rightarrow> 'a list" where
  "tail k xs = drop (length xs - k) xs"

text \<open>\<open>Series.shift()\<close> moves every row down by one and puts NaN first.\<close>

definition shift :: "fl list \<Rightarrow> fl list" where
  "shift xs = (if xs = [] then [] else NaN # butlast xs)"

text \<open>\<open>Series.diff()\<close>: each row minus the row before it; the first row is NaN.\<close>

definition diff :: "fl list \<Rightarrow> fl list" where
  "diff xs = map2 fsub xs (shift xs)"

text \<open>
  \<open>Series.max()\<close>, \<open>Series.min()\<close> and \<open>Series.mean()\<close> of a column of finite
  values: NaN on an empty series, as pandas returns it.
\<close>

definition series_max :: "real list \<Rightarrow> fl" where
  "series_max xs = (if xs = [] then NaN else Fin (Max (set xs)))"

definition series_min :: "real list \<Rightarrow> fl" where
  "series_min xs = (if xs = [] then NaN else Fin (Min (set xs)))"

definition mean :: "real list \<Rightarrow> real" where
  "mean ys = sum_list ys / real (length ys)"

definition series_mean :: "real list \<Rightarrow> fl" where
  "series_mean xs = (if xs = [] then NaN else Fin (mean xs))"

text \<open>
  \<open>Series.rolling(window=w)\<close>: the window at row \<open>i\<close> is the \<open>w\<close> rows ending at
  \<open>i\<close>. With the default \<open>min_periods = w\<close> the result is NaN until \<open>w\<close> rows exist
  and whenever a row of the window is NaN. (The windows of this program hold finite
  numbers and NaN only; a window with an infinity is given NaN as well.) The mean is the
  sum of the window over its length, a quotient.
\<close>

definition finite_vals :: "fl list \<Rightarrow> real list option" where
  "finite_vals ys = (if list_all is_Fin ys then Some (map un_Fin ys) else None)"

definition window_at :: "nat \<Rightarrow> fl list \<Rightarrow> nat \<Rightarrow> real list option" where
  "window_at w xs i =
     (if w = 0 \<or> i + 1 < w then None else finite_vals (take w (drop (i + 1 - w) xs)))"

definition rolling_mean :: "nat \<Rightarrow> fl list \<Rightarrow> fl list" where
  "rolling_mean w xs =
     map (\<lambda>i. case window_at w xs i of None \<Rightarrow> NaN | Some ys \<Rightarrow> float64 (mean ys))
       [0..<length xs]"

text \<open>
  \<open>rolling(w).std()\<close> is the sample standard deviation (\<open>ddof = 1\<close>), NaN for a
  window of one row. Its square root is the only operation of the model that does not
  evaluate on numerals in general.
\<close>

definition sample_std :: "real list \<Rightarrow> fl" where
  "sample_std ys =
     (if length ys \<le> 1 then NaN
      else Fin (sqrt (sum_list (map (\<lambda>y. (y - mean ys)\<^sup>2) ys) / real (length ys - 1))))"

definition rolling_std :: "nat \<Rightarrow> fl list \<Rightarrow> fl list" where
  "rolling_std w xs =
     map (\<lambda>i. case window_at w xs i of None \<Rightarrow> NaN | Some ys \<Rightarrow> sample_std ys)
       [0..<length xs]"

text \<open>
  \<open>Series.ewm(span=s, adjust=False).mean()\<close> on finite values: the first row is the
  first value, every later row is \<open>(1 - \<alpha>) * previous + \<alpha> * value\<close> with
  \<open>\<alpha> = 2 / (s + 1)\<close>. pandas raises ValueError for a span below 1 (\<open>None\<close>).
\<close>

fun ewm_from :: "real \<Rightarrow> real \<Rightarrow> real list \<Rightarrow> real list" where
  "ewm_from \<alpha> y [] = []"
| "ewm_from \<alpha> y (x # xs) = ((1 - \<alpha>) * y + \<alpha> * x) # ewm_from \<alpha> ((1 - \<alpha>) * y + \<alpha> * x) xs"

fun ewm_rows :: "real \<Rightarrow> real list \<Rightarrow> real list" where
  "ewm_rows \<alpha> [] = []"
| "ewm_rows \<alpha> (x # xs) = x # ewm_from \<alpha> x xs"

definition ewm_mean :: "real \<Rightarrow> real list \<Rightarrow> real list option" where
  "ewm_mean s xs = (if s < 1 then None else Some (ewm_rows (2 / (s + 1)) xs))"


section \<open>Python strings\<close>

text \<open>
  A Python string is modelled by its UTF-8 encoding, a list of bytes; the emoji of a
  label is written as its four bytes. A character (a code point) is a lead byte with the
  continuation bytes (128 to 191) that follow it: \<open>utf8_chars\<close> cuts a string into its
  characters, and the operations that Python defines on characters (\<open>split\<close>,
  \<open>strip\<close>, slices) work on this list. The texts of Telegram messages are well-formed
  UTF-8.
\<close>

definition is_cont :: "char \<Rightarrow> bool" where
  "is_cont c = (let k = (of_char c :: nat) in 128 \<le> k \<and> k < 192)"

fun utf8_chars :: "string \<Rightarrow> string list" where
  "utf8_chars [] = []"
| "utf8_chars (c # cs) =
     (case utf8_chars cs of
        [] \<Rightarrow> [[c]]
      | g # gs \<Rightarrow> if is_cont (hd g) then (c # g) # gs else [c] # g # gs)"

text \<open>\<open>s[:n]\<close> and \<open>s[n:]\<close>: the first \<open>n\<close> characters, and the rest.\<close>

definition take_chars :: "nat \<Rightarrow> string \<Rightarrow> string" where
  "take_chars n s = concat (take n (utf8_chars s))"

definition drop_chars :: "nat \<Rightarrow> string \<Rightarrow> string" where
  "drop_chars n s = concat (drop n (utf8_chars s))"

text \<open>\<open>str(i)\<close> of an integer is its decimal numeral.\<close>

function str_nat :: "nat \<Rightarrow> string" where
  "str_nat n = (if n < 10 then [char_of (48 + n)] else str_nat (n div 10) @ [char_of (48 + n mod 10)])"
  by pat_completeness auto
termination
  by (relation "measure id") auto

definition str_int :: "int \<Rightarrow> string" where
  "str_int i = (if i < 0 then CHR ''-'' # str_nat (nat (- i)) else str_nat (nat i))"

text \<open>
  The whitespace characters of Python (\<open>str.isspace\<close>, and what \<open>split()\<close> and
  \<open>strip()\<close> cut at), by the bytes of their encodings: U+0009 to U+000D, U+001C to
  U+0020, U+0085, U+00A0, U+1680, U+2000 to U+200A, U+2028, U+2029, U+202F, U+205F and
  U+3000.
\<close>

definition whitespace :: "nat list list" where
  "whitespace =
     [[9], [10], [11], [12], [13], [28], [29], [30], [31], [32],
      [194, 133], [194, 160], [225, 154, 128],
      [226, 128, 128], [226, 128, 129], [226, 128, 130], [226, 128, 131], [226, 128, 132],
      [226, 128, 133], [226, 128, 134], [226, 128, 135], [226, 128, 136], [226, 128, 137],
      [226, 128, 138], [226, 128, 168], [226, 128, 169], [226, 128, 175],
      [226, 129, 159], [227, 128, 128]]"

definition is_space :: "string \<Rightarrow> bool" where
  "is_space ch = (map of_char ch \<in> set whitespace)"

text \<open>\<open>s.split()\<close>: the maximal runs of characters that are not whitespace, in order.\<close>

fun split_from :: "string \<Rightarrow> string list \<Rightarrow> string list" where
  "split_from w [] = (if w = [] then [] else [w])"
| "split_from w (ch # chs) =
     (if is_space ch then (if w = [] then split_from [] chs else w # split_from [] chs)
      else split_from (w @ ch) chs)"

definition str_split :: "string \<Rightarrow> string list" where
  "str_split s = split_from [] (utf8_chars s)"

text \<open>
  \<open>s.split(maxsplit=1)\<close>: the first word, and the rest of the string after the
  whitespace that follows the word, when anything is left (the rest keeps the whitespace
  at its end).
\<close>

definition str_split_max1 :: "string \<Rightarrow> string list" where
  "str_split_max1 s =
     (let chs = dropWhile is_space (utf8_chars s);
          first = takeWhile (\<lambda>ch. \<not> is_space ch) chs;
          rest = dropWhile is_space (dropWhile (\<lambda>ch. \<not> is_space ch) chs)
      in if chs = [] then [] else if rest = [] then [concat first]
         else [concat first, concat rest])"

text \<open>\<open>s.strip()\<close>: without the whitespace at both ends.\<close>

definition str_strip :: "string \<Rightarrow> string" where
  "str_strip s = concat (rev (dropWhile is_space (rev (dropWhile is_space (utf8_chars s)))))"

text \<open>
  \<open>upper\<close>, \<open>lower\<close>, \<open>int\<close> and \<open>float\<close> follow the Unicode tables of the
  interpreter (case mappings, the decimal digits of every script); they are parameters
  of the model (see \<open>world\<close>). The four functions below are what they are on ASCII
  strings; the example worlds use them. \<open>None\<close> is a ValueError.
\<close>

definition ascii_upper :: "string \<Rightarrow> string" where
  "ascii_upper s =
     map (\<lambda>c. let k = (of_char c :: nat) in if 97 \<le> k \<and> k \<le> 122 then char_of (k - 32) else c) s"

definition ascii_lower :: "string \<Rightarrow> string" where
  "ascii_lower s =
     map (\<lambda>c. let k = (of_char c :: nat) in if 65 \<le> k \<and> k \<le> 90 then char_of (k + 32) else c) s"

definition is_digit :: "char \<Rightarrow> bool" where
  "is_digit c = (let k = (of_char c :: nat) in 48 \<le> k \<and> k \<le> 57)"

fun digits_ok :: "string \<Rightarrow> bool" where
  "digits_ok [] = False"
| "digits_ok [c] = is_digit c"
| "digits_ok (c # d # cs) =
     (is_digit c \<and> (if d = CHR ''_'' then digits_ok cs else digits_ok (d # cs)))"

definition digits_val :: "string \<Rightarrow> nat" where
  "digits_val s = foldl (\<lambda>a c. 10 * a + (of_char c - 48)) 0 (filter is_digit s)"

definition ascii_int :: "string \<Rightarrow> int option" where
  "ascii_int s =
     (case s of
        [] \<Rightarrow> None
      | c # cs \<Rightarrow>
          if c = CHR ''-'' then (if digits_ok cs then Some (- int (digits_val cs)) else None)
          else if c = CHR ''+'' then (if digits_ok cs then Some (int (digits_val cs)) else None)
          else if digits_ok s then Some (int (digits_val s)) else None)"

definition ascii_float :: "string \<Rightarrow> fl option" where
  "ascii_float s =
     (let ip = takeWhile (\<lambda>c. c \<noteq> CHR ''.'') s;
          fp = drop 1 (dropWhile (\<lambda>c. c \<noteq> CHR ''.'') s)
      in if ip \<noteq> [] \<and> list_all is_digit ip \<and> list_all is_digit fp
         then Some (Fin (real (digits_val ip) + real (digits_val fp) / 10 ^ length fp))
         else None)"

section \<open>Market data\<close>

text \<open>
  A row of the DataFrame that \<open>get_kline_data\<close> returns: the timestamp is a string,
  the five price and volume columns are floats (finite numbers: the exchange's decimal
  strings, or the mock generator's draws). The \<open>turnover\<close> column of the exchange's
  rows is never read and is left out.
\<close>

record candle =
  timestamp :: string
  open_price :: real
  high :: real
  low :: real
  close :: real
  volume :: real

type_synonym dataframe = "candle list"

text \<open>An exception object, by its class and message.\<close>

datatype py_error = Py_exception string

text \<open>
  What the HTTP request of \<open>get_kline_data\<close> comes to: \<open>Request_failed\<close> when
  \<open>requests.get\<close>, the JSON decoding, the DataFrame construction or the float
  conversion raises; otherwise the reply's \<open>retCode\<close> and the rows of
  \<open>result.list\<close> (no rows when the key is missing).
\<close>

datatype api_reply = Request_failed | Api_reply int "candle list"

subsection \<open>Session data and Telegram messages\<close>

text \<open>
  The dictionaries \<open>current_auto\<close> and \<open>trade_stats\<close> of the bot, an entry of
  \<open>auto_trade_history\<close> (also a row of \<open>unified_trade_history.csv\<close>), and an incoming
  message (the sender's id and the text).
\<close>

record auto_config =
  cfg_symbol :: "string option"
  cfg_timeframes :: "string list"
  cfg_leverage :: "int option"
  cfg_strategy :: string

record stats =
  wins :: int
  losses :: int
  profit_pct :: real

record trade =
  tr_timestamp :: string
  tr_action :: string
  tr_token :: string
  tr_amount :: fl
  tr_status :: string
  tr_tx_hash :: string

record message =
  from_user_id :: int
  msg_text :: string

text \<open>
  A message the bot sends is recorded by its template and the values interpolated into
  it, not by its text. The messages of the session commands and of the scheduler loop
  have a constructor each; every other message is \<open>Template\<close> with the name of the
  source variable that holds the text (or a name for a literal) and the interpolated
  values in the order of the text. A number formatted with a precision is recorded
  unformatted. Replies go to the chat of the incoming message; the notifications of
  the background threads go to the administrator; the one message sent to another user
  (\<open>/grant\<close>) carries the recipient as its first value.
\<close>

datatype pv = V_str string | V_int int | V_num real | V_flt fl | V_bool bool | V_list "string list"

datatype reply =
    Usage_autoagree
  | Auto_trader_started string string "string list" int
  | Error_starting_auto_trader
  | Auto_trader_stopped
  | Status_running string auto_config stats
  | Status_stopped string
  | Strategy_set string
  | Current_strategy string
  | Bot_locked
  | Bot_unlocked
  | Not_authorized
  | Strong_signal string nat string "string list"
  | Weak_confluence string nat string "string list"
  | Waiting_for_alignment string nat string
  | Template string "pv list"

text \<open>
  What \<open>requests.get\<close> on the DEX endpoint comes to: it raises, or there is a response
  with a status code and, when \<open>response.json()\<close> and the comprehension over
  \<open>pairs\<close> succeed, the \<open>pairAddress\<close> of every pair (\<open>None\<close> for a pair without
  one; addresses are strings). What reading \<open>unified_trade_history.csv\<close> comes to.
\<close>

datatype dex_reply = Dex_raised | Dex_response int "string option list option"

datatype history_read = No_file | File_lines "string list" | Read_raised

text \<open>
  Everything outside the program that one handler call, one cycle of a loop or one
  background job reads.

  The exchange, the clock and the runtime:
  \<^item> \<open>api\<close>: the exchange's answer to a request for a symbol, an interval and a limit;
  \<^item> \<open>clock\<close>: the successive readings of \<open>int(time.time())\<close> during the call;
  \<^item> \<open>fault\<close>: an exception raised by the runtime or a library inside the engine's
    \<open>try\<close> block, if any (on finite columns the pandas operations themselves raise
    nothing);
  \<^item> \<open>rand_sample\<close>: the outcome of
    \<open>random.sample(signals, random.randint(2, len(signals)))\<close>;
  \<^item> \<open>rand_tx k\<close>: the \<open>k\<close>-th outcome of \<open>random.randint(100000, 999999)\<close>;
  \<^item> \<open>np_state\<close>: the stream of draws that numpy's global generator would give in its
    state at the start of the call;
  \<^item> \<open>set_order\<close>: the order in which Python iterates over the set of the given
    strings (it depends on the hash seed of the process);
  \<^item> \<open>now_hms\<close> and \<open>now_stamp k\<close>: \<open>datetime.now()\<close> formatted as \<open>%H:%M:%S\<close>, and
    the \<open>k\<close>-th reading formatted as \<open>%Y-%m-%d %H:%M:%S\<close>.

  Telegram, the DEX endpoint and the files:
  \<^item> \<open>send_ok k\<close>: whether the \<open>k\<close>-th Telegram call (\<open>reply_to\<close>, \<open>send_message\<close>) of
    the handler, cycle or job succeeds, counting from 0 (it raises otherwise);
  \<^item> \<open>dex\<close>: the answer of the DEX endpoint;
  \<^item> \<open>csv_ok k\<close>: whether the \<open>k\<close>-th append to the trade file succeeds;
  \<^item> \<open>history_file\<close>: the lines of the trade file when \<open>/history\<close> reads it;
  \<^item> \<open>file_ok\<close>: whether \<open>os.makedirs\<close> and the write of a content file succeed.

  The module \<open>auto_execution_engine\<close> is imported by the program and is not part of the
  source: its object is created without arguments and is given the symbols of the
  message only, so it sees none of the session variables. What its methods return is
  an input:
  \<^item> \<open>exec_start symbols\<close>: the values of \<open>min_confidence_threshold\<close> and
    \<open>max_daily_trades\<close> after \<open>start_auto_execution(symbols)\<close>, \<open>None\<close> when the call
    or an attribute raises;
  \<^item> \<open>exec_status\<close>, \<open>exec_stop\<close>: the values that the status text and the stop text
    interpolate from the results of \<open>get_auto_execution_status()\<close> and
    \<open>stop_auto_execution()\<close>, \<open>None\<close> when the call or a lookup raises.

  The library, the same in every world of one interpreter:
  \<^item> \<open>np_seed n\<close>: the stream of draws of \<open>np.random.uniform\<close> on the unit interval
    after \<open>np.random.seed(n)\<close>, in order;
  \<^item> \<open>py_upper\<close>, \<open>py_lower\<close>, \<open>py_int\<close>, \<open>py_float\<close>: \<open>str.upper\<close>,
    \<open>str.lower\<close>, \<open>int\<close> and \<open>float\<close> on strings.
\<close>

record world =
  api :: "string \<Rightarrow> string \<Rightarrow> int \<Rightarrow> api_reply"
  clock :: "nat \<Rightarrow> int"
  fault :: "py_error option"
  rand_sample :: "string list \<Rightarrow> string list"
  rand_tx :: "nat \<Rightarrow> int"
  np_state :: "nat \<Rightarrow> real"
  set_order :: "string list \<Rightarrow> string list"
  now_hms :: string
  now_stamp :: "nat \<Rightarrow> string"
  send_ok :: "nat \<Rightarrow> bool"
  dex :: dex_reply
  csv_ok :: "nat \<Rightarrow> bool"
  history_file :: history_read
  file_ok :: bool
  exec_start :: "string list \<Rightarrow> pv list option"
  exec_status :: "pv list option"
  exec_stop :: "pv list option"
  np_seed :: "nat \<Rightarrow> nat \<Rightarrow> real"
  py_upper :: "string \<Rightarrow> string"
  py_lower :: "string \<Rightarrow> string"
  py_int :: "string \<Rightarrow> int option"
  py_float :: "string \<Rightarrow> fl option"

subsection \<open>BybitAPI\<close>

text \<open>
  \<open>_generate_mock_data(limit)\<close>: \<open>np.random.seed(42)\<close> first replaces the state of
  numpy's generator, whatever it was. The timestamps count back from the clock in steps
  of 60 seconds (\<open>range(limit, 0, -1)\<close>, one reading of the clock for each); then
  \<open>limit\<close> draws are taken for each of open, high, low, close and volume, in this
  order; \<open>np.random.uniform(a, b)\<close> is \<open>a + (b - a) * draw\<close>. The arguments are
  numpy's seeding function, the state of the generator before the call, the clock and
  the limit.
\<close>

definition generate_mock_data ::
  "(nat \<Rightarrow> nat \<Rightarrow> real) \<Rightarrow> (nat \<Rightarrow> real) \<Rightarrow> (nat \<Rightarrow> int) \<Rightarrow> int \<Rightarrow> dataframe" where
  "generate_mock_data seed state clk limit =
     (let state = seed 42;
          n = nat limit; base_price = 50000 in
      map (\<lambda>i. \<lparr>timestamp = str_int (clk i - (limit - int i) * 60),
                open_price = base_price + (- 1000 + 2000 * state i),
                high = base_price + (0 + 1500 * state (n + i)),
                low = base_price - (0 + 1500 * state (2 * n + i)),
                close = base_price + (- 1000 + 2000 * state (3 * n + i)),
                volume = 100 + 900 * state (4 * n + i)\<rparr>)
        [0..<n])"

text \<open>
  \<open>get_kline_data\<close>: the exchange's rows sorted by their timestamp strings when the
  reply has \<open>retCode = 0\<close> and a non-empty list; the mock data in every other case,
  also when anything in the \<open>try\<close> block raises. (\<open>sort_values\<close> compares the strings
  character by character; rows with equal timestamps keep their order here, pandas
  promises no order for them.)
\<close>

definition get_kline_data :: "world \<Rightarrow> string \<Rightarrow> string \<Rightarrow> int \<Rightarrow> dataframe" where
  "get_kline_data w symbol timeframe limit =
     (case api w symbol timeframe limit of
        Api_reply retCode rows \<Rightarrow>
          if retCode = 0 \<and> rows \<noteq> [] then sort_key timestamp rows
          else generate_mock_data (np_seed w) (np_state w) (clock w) limit
      | Request_failed \<Rightarrow> generate_mock_data (np_seed w) (np_state w) (clock w) limit)"

definition detect_order_blocks :: "dataframe \<Rightarrow> bool" where
  "detect_order_blocks df =
     (if length df < 20 then False
      else
        let recent_high = series_max (tail 10 (map high df));
            current_price = last (map close df)
        in fgt (Fin current_price) (fmul recent_high (Fin 0.998)))"

definition detect_fair_value_gap :: "dataframe \<Rightarrow> bool" where
  "detect_fair_value_gap df =
     (if length df < 3 then False
      else
        list_ex
          (\<lambda>i. let gap = \<bar>high (df ! i) - low (df ! (i + 2))\<bar>;
                   avg_range = series_mean (map (\<lambda>c. high c - low c) df)
               in fgt (Fin gap) (fmul avg_range (Fin 1.5)))
          [0..<length df - 2])"

text \<open>
  \<open>calculate_ema\<close>: an empty series for an empty frame, and also when pandas rejects
  the span (the \<open>except\<close> branch).
\<close>

definition calculate_ema :: "dataframe \<Rightarrow> int \<Rightarrow> real list" where
  "calculate_ema df period =
     (if df = [] then []
      else case ewm_mean (real_of_int period) (map close df) of
             None \<Rightarrow> []
           | Some ys \<Rightarrow> ys)"

text \<open>
  The indicator functions return dictionaries of series; they are records here. Where
  the source returns a dictionary with fewer keys (for an empty frame, or from an
  \<open>except\<close> branch), the missing series are empty: the engine reads none of them.
\<close>

record macd_data =
  macd :: "real list"
  signal :: "real list"
  histogram :: "real list"

text \<open>
  \<open>calculate_macd\<close> at its default arguments (\<open>fast=12, slow=26, signal=9\<close>), the
  only way the program calls it.
\<close>

definition calculate_macd :: "dataframe \<Rightarrow> macd_data" where
  "calculate_macd df =
     (if df = [] then \<lparr>macd = [], signal = [], histogram = []\<rparr>
      else
        let ema_fast = calculate_ema df 12;
            ema_slow = calculate_ema df 26;
            macd_line = map2 (-) ema_fast ema_slow
        in case ewm_mean 9 macd_line of
             None \<Rightarrow> \<lparr>macd = [], signal = [], histogram = []\<rparr>
           | Some signal_line \<Rightarrow>
               \<lparr>macd = macd_line, signal = signal_line,
                histogram = map2 (-) macd_line signal_line\<rparr>)"

definition calculate_atr :: "dataframe \<Rightarrow> nat \<Rightarrow> fl list" where
  "calculate_atr df period =
     (if df = [] then []
      else
        let prev_close = shift (map (\<lambda>c. Fin (close c)) df);
            high_low = map (\<lambda>c. Fin (high c - low c)) df;
            high_close = map2 (\<lambda>c p. fabs (fsub (Fin (high c)) p)) df prev_close;
            low_close = map2 (\<lambda>c p. fabs (fsub (Fin (low c)) p)) df prev_close;
            true_range = map2 fmaximum high_low (map2 fmaximum high_close low_close)
        in rolling_mean period true_range)"

record supertrend_data =
  st_upper :: "fl list"
  st_lower :: "fl list"
  direction :: "int list"

definition calculate_supertrend :: "dataframe \<Rightarrow> nat \<Rightarrow> real \<Rightarrow> supertrend_data" where
  "calculate_supertrend df period multiplier =
     (if df = [] then \<lparr>st_upper = [], st_lower = [], direction = []\<rparr>
      else
        let hl2 = map (\<lambda>c. Fin ((high c + low c) / 2)) df;
            atr = calculate_atr df period;
            upper_band = map2 fadd hl2 (map (fmul (Fin multiplier)) atr);
            lower_band = map2 fsub hl2 (map (fmul (Fin multiplier)) atr);
            dir = map2 (\<lambda>c (u, l). if fgt (Fin (close c)) u then 1
                                     else if flt (Fin (close c)) l then - 1 else 0)
                    df (zip (shift upper_band) (shift lower_band))
        in \<lparr>st_upper = upper_band, st_lower = lower_band, direction = dir\<rparr>)"

record bollinger_data =
  middle :: "fl list"
  upper :: "fl list"
  lower :: "fl list"

definition calculate_bollinger_bands :: "dataframe \<Rightarrow> nat \<Rightarrow> real \<Rightarrow> bollinger_data" where
  "calculate_bollinger_bands df period std_dev =
     (if df = [] then \<lparr>middle = [], upper = [], lower = []\<rparr>
      else
        let sma = rolling_mean period (map (\<lambda>c. Fin (close c)) df);
            std = rolling_std period (map (\<lambda>c. Fin (close c)) df)
        in \<lparr>middle = sma,
            upper = map2 fadd sma (map (\<lambda>s. fmul s (Fin std_dev)) std),
            lower = map2 fsub sma (map (\<lambda>s. fmul s (Fin std_dev)) std)\<rparr>)"


section \<open>The confluence engine\<close>

text \<open>
  \<open>xs.iloc[-k]\<close>, for \<open>1 \<le> k \<le> len(xs)\<close>: the engine reads \<open>iloc[-1]\<close> of the
  columns after its test that the frame is not empty, and every other \<open>iloc\<close> after a
  test of the length.
\<close>

definition iloc_neg :: "'a list \<Rightarrow> nat \<Rightarrow> 'a" where
  "iloc_neg xs k = xs ! (length xs - k)"

text \<open>
  The local variables of \<open>quantum_smart_money_engine_v2\<close>, each as a function of the
  frame \<open>df\<close> (source lines 202 to 264).
\<close>

definition current_price :: "dataframe \<Rightarrow> real" where
  "current_price df = iloc_neg (map close df) 1"

definition bos_break :: "dataframe \<Rightarrow> bool" where
  "bos_break df =
     (let recent_high = series_max (tail 20 (map high df))
      in fgt (Fin (current_price df)) (fmul recent_high (Fin 1.002)))"

definition ema_cross :: "dataframe \<Rightarrow> bool" where
  "ema_cross df =
     (let ema_fast = calculate_ema df 9; ema_slow = calculate_ema df 21
      in if 1 < length ema_fast \<and> 1 < length ema_slow
         then iloc_neg ema_fast 1 > iloc_neg ema_slow 1 \<and> iloc_neg ema_fast 2 \<le> iloc_neg ema_slow 2
         else False)"

definition macd_signal :: "dataframe \<Rightarrow> bool" where
  "macd_signal df =
     (let macd_data = calculate_macd df
      in if 1 < length (macd macd_data) \<and> 1 < length (signal macd_data)
         then iloc_neg (macd macd_data) 1 > iloc_neg (signal macd_data) 1 \<and>
              iloc_neg (macd macd_data) 2 \<le> iloc_neg (signal macd_data) 2
         else False)"

definition supertrend_buy :: "dataframe \<Rightarrow> bool" where
  "supertrend_buy df =
     (let supertrend_data = calculate_supertrend df 10 3
      in if 0 < length (direction supertrend_data)
         then iloc_neg (direction supertrend_data) 1 = 1
         else False)"

definition boll_band_squeeze :: "dataframe \<Rightarrow> bool" where
  "boll_band_squeeze df =
     (let bb_data = calculate_bollinger_bands df 20 2
      in if 10 < length (upper bb_data) \<and> 10 < length (lower bb_data)
         then flt (fsub (iloc_neg (upper bb_data) 1) (iloc_neg (lower bb_data) 1))
                  (fsub (iloc_neg (upper bb_data) 10) (iloc_neg (lower bb_data) 10))
         else False)"

definition volume_spike :: "dataframe \<Rightarrow> bool" where
  "volume_spike df =
     (let avg_volume = series_mean (tail 20 (map volume df));
          current_volume = iloc_neg (map volume df) 1
      in fgt (Fin current_volume) (fmul avg_volume (Fin 1.5)))"

definition breakout_detected :: "dataframe \<Rightarrow> bool" where
  "breakout_detected df =
     (let resistance = series_max (tail 20 (map high df));
          support = series_min (tail 20 (map low df))
      in fgt (Fin (current_price df)) resistance \<or> flt (Fin (current_price df)) support)"

definition delta :: "dataframe \<Rightarrow> fl list" where
  "delta df = diff (map (\<lambda>c. Fin (close c)) df)"

definition gain :: "dataframe \<Rightarrow> fl list" where
  "gain df = rolling_mean 14 (map (\<lambda>d. if fgt d (Fin 0) then d else Fin 0) (delta df))"

text \<open>
  The losses are negated after the selection, so a row without a loss holds the negative
  zero of float64, which the model does not tell from zero (see the first section).
\<close>

definition loss :: "dataframe \<Rightarrow> fl list" where
  "loss df = rolling_mean 14 (map (\<lambda>d. fneg (if flt d (Fin 0) then d else Fin 0)) (delta df))"

definition rsi :: "dataframe \<Rightarrow> fl list" where
  "rsi df =
     (let rs = map2 fdiv (gain df) (loss df)
      in map (\<lambda>r. fsub (Fin 100) (fdiv (Fin 100) (fadd (Fin 1) r))) rs)"

definition hidden_div :: "dataframe \<Rightarrow> bool" where
  "hidden_div df =
     (if 0 < length (rsi df) \<and> iloc_neg (rsi df) 1 \<noteq> NaN
      then fgt (iloc_neg (rsi df) 1) (Fin 70) \<or> flt (iloc_neg (rsi df) 1) (Fin 30)
      else False)"

text \<open>\<open>if cond: confirmations.append(label)\<close> contributes the label or nothing.\<close>

definition label_if :: "bool \<Rightarrow> string \<Rightarrow> string list" where
  "label_if cond l = (if cond then [l] else [])"

definition quantum_approval_label :: string where
  "quantum_approval_label = CHR 0xF0 # CHR 0x9F # CHR 0x9A # CHR 0x80 # '' Quantum Approval''"

text \<open>The list \<open>confirmations\<close> when the quantum filter layer is reached (line 281).\<close>

definition signals_before_filter :: "dataframe \<Rightarrow> string list" where
  "signals_before_filter df =
     label_if (detect_order_blocks df \<and> bos_break df) ''Order Block Break'' @
     label_if (detect_fair_value_gap df) ''Fair Value Gap'' @
     label_if (bos_break df) ''Break of Structure'' @
     label_if (ema_cross df \<and> macd_signal df) ''EMA + MACD Confluence'' @
     label_if (supertrend_buy df) ''SuperTrend Signal'' @
     label_if (boll_band_squeeze df) ''Bollinger Squeeze'' @
     label_if (breakout_detected df) ''Breakout Confirmation'' @
     label_if (volume_spike df) ''Volume Surge'' @
     label_if (hidden_div df) ''Hidden Divergence''"

definition quantum_approval :: "dataframe \<Rightarrow> bool" where
  "quantum_approval df =
     (let total_signals = length (signals_before_filter df)
      in 3 \<le> total_signals \<and> volume_spike df \<and> (ema_cross df \<or> macd_signal df))"

definition quantum_confirmations :: "dataframe \<Rightarrow> string list" where
  "quantum_confirmations df =
     signals_before_filter df @ label_if (quantum_approval df) quantum_approval_label"

text \<open>
  The \<open>try\<close> block of the engine once the frame \<open>df\<close> is fetched:
  \<open>["Data Error"]\<close> for an empty frame, the confirmations otherwise. \<open>Inl\<close> is an
  exception raised inside the block (the first argument, see \<open>fault\<close>).
\<close>

definition engine_on_frame :: "py_error option \<Rightarrow> dataframe \<Rightarrow> py_error + string list" where
  "engine_on_frame raised df =
     (case raised of
        Some e \<Rightarrow> Inl e
      | None \<Rightarrow> if df = [] then Inr [''Data Error''] else Inr (quantum_confirmations df))"

text \<open>
  The whole \<open>try\<close> block: the frame is the one of the first timeframe (\<open>"15"\<close> when
  the list is empty), 100 rows.
\<close>

definition engine_try :: "world \<Rightarrow> string \<Rightarrow> string list \<Rightarrow> py_error + string list" where
  "engine_try w symbol timeframes =
     (let primary_tf = (if timeframes \<noteq> [] then hd timeframes else ''15'');
          df = get_kline_data w symbol primary_tf 100
      in engine_on_frame (fault w) df)"

text \<open>\<open>except Exception\<close>: the list is replaced by one label.\<close>

definition except_fallback :: "py_error + string list \<Rightarrow> string list" where
  "except_fallback r =
     (case r of
        Inl e \<Rightarrow> [''System Error - Using Fallback'']
      | Inr confirmations \<Rightarrow> confirmations)"

definition quantum_smart_money_engine_v2 :: "world \<Rightarrow> string \<Rightarrow> string list \<Rightarrow> string list" where
  "quantum_smart_money_engine_v2 w symbol timeframes =
     except_fallback (engine_try w symbol timeframes)"

subsection \<open>The other strategies\<close>

definition momentum_scalper_strategy :: "world \<Rightarrow> string \<Rightarrow> string list \<Rightarrow> string list" where
  "momentum_scalper_strategy w symbol timeframes =
     rand_sample w [''Momentum Break'', ''Volume Spike'', ''RSI Oversold'', ''EMA Golden Cross'',
                    ''Price Acceleration'', ''Trend Continuation'']"

definition breakout_hunter_strategy :: "world \<Rightarrow> string \<Rightarrow> string list \<Rightarrow> string list" where
  "breakout_hunter_strategy w symbol timeframes =
     rand_sample w [''Resistance Break'', ''Support Break'', ''Volume Confirmation'',
                    ''Bollinger Breakout'', ''Triangle Pattern'', ''Flag Pattern'']"

definition mean_reversion_strategy :: "world \<Rightarrow> string \<Rightarrow> string list \<Rightarrow> string list" where
  "mean_reversion_strategy w symbol timeframes =
     rand_sample w [''RSI Overbought'', ''Bollinger Upper Touch'', ''Price Rejection'',
                    ''Volume Divergence'', ''Support Test'', ''Mean Touch'']"


section \<open>The bot: session state, command handlers and the background threads\<close>

text \<open>
  The variables of \<open>start_unified_trading_bot\<close> that the handlers and threads share:
  the five session variables, the two settings read from the environment at the start
  (\<open>WALLET_PRIVATE_KEY\<close>, \<open>DEMO_MODE\<close>) and the list \<open>auto_trade_history\<close>. With
  them the state holds what the program has started or written: the scheduler threads
  started so far that have not ended (\<open>loops\<close>), the content threads started that have
  not run yet (\<open>jobs\<close>), the rows appended to \<open>unified_trade_history.csv\<close> and the
  names of the files written under \<open>content/\<close>.

  A thread of \<open>auto_trade_loop\<close> holds the \<open>symbol\<close> and \<open>timeframes\<close> of the
  \<open>/autoagree\<close> call that started it; it reads \<open>auto_trader_running\<close>,
  \<open>current_strategy\<close> and \<open>trade_stats\<close> from the shared variables each time it uses
  them.
\<close>

record loop_thread =
  lt_symbol :: string
  lt_timeframes :: "string list"

datatype job = Create_ebook string | Create_trading_ebook | Ai_content_loop

record bot_state =
  auto_trader_running :: bool
  current_auto :: auto_config
  trade_stats :: stats
  current_strategy :: string
  bot_locked :: bool
  WALLET_PRIVATE_KEY :: "string option"
  DEMO_MODE :: bool
  auto_trade_history :: "trade list"
  loops :: "loop_thread list"
  jobs :: "job list"
  csv_rows :: "trade list"
  content_files :: "string list"

text \<open>
  The state after the assignments of lines 389 to 398, in an environment that sets
  neither \<open>WALLET_PRIVATE_KEY\<close> nor \<open>DEMO_MODE\<close> (\<open>DEMO_MODE\<close> is then true).
\<close>

definition initial_state :: bot_state where
  "initial_state =
     \<lparr>auto_trader_running = False,
      current_auto = \<lparr>cfg_symbol = None, cfg_timeframes = [], cfg_leverage = None,
                      cfg_strategy = ''quantum''\<rparr>,
      trade_stats = \<lparr>wins = 0, losses = 0, profit_pct = 0\<rparr>,
      current_strategy = ''Quantum Engine V2.0'',
      bot_locked = False,
      WALLET_PRIVATE_KEY = None,
      DEMO_MODE = True,
      auto_trade_history = [],
      loops = [],
      jobs = [],
      csv_rows = [],
      content_files = []\<rparr>"

text \<open>
  What reaches Telegram from a handler or a cycle that makes one call: the message, or
  nothing when the call raises. \<open>reply_else\<close> is a reply inside a \<open>try\<close> block whose
  \<open>except\<close> branch sends an error text: when the first call raises, the error text is
  sent by a second call, which may raise in its turn. (\<open>print\<close> writes to the standard
  output and raises nothing; the text of an exception, which an error text
  interpolates, is not recorded.)
\<close>

definition deliver :: "world \<Rightarrow> reply list \<Rightarrow> reply list" where
  "deliver w rs = (if send_ok w 0 then rs else [])"

definition reply_else :: "world \<Rightarrow> reply \<Rightarrow> reply \<Rightarrow> reply list" where
  "reply_else w r err = (if send_ok w 0 then [r] else if send_ok w 1 then [err] else [])"

subsection \<open>Recording a trade\<close>

text \<open>
  \<open>record_auto_trade\<close> appends the trade to \<open>auto_trade_history\<close> and a row to the
  trade file, each with its own reading of \<open>datetime.now()\<close>; a failing write is
  caught. \<open>k\<close> counts the calls within one handler call or cycle.
\<close>

definition record_auto_trade ::
  "world \<Rightarrow> nat \<Rightarrow> bot_state \<Rightarrow> string \<Rightarrow> string \<Rightarrow> fl \<Rightarrow> string \<Rightarrow> string \<Rightarrow> bot_state" where
  "record_auto_trade w k st action token amount status tx_hash =
     st\<lparr>auto_trade_history := auto_trade_history st @
            [\<lparr>tr_timestamp = now_stamp w (2 * k), tr_action = action, tr_token = token,
              tr_amount = amount, tr_status = status, tr_tx_hash = tx_hash\<rparr>],
        csv_rows := (if csv_ok w k
                     then csv_rows st @
                       [\<lparr>tr_timestamp = now_stamp w (2 * k + 1), tr_action = action,
                         tr_token = token, tr_amount = amount, tr_status = status,
                         tr_tx_hash = tx_hash\<rparr>]
                     else csv_rows st)\<rparr>"

text \<open>
  \<open>execute_auto_signal\<close>: a demo trade when \<open>DEMO_MODE\<close> is set or there is no wallet
  key (\<open>None\<close> or the empty string), else a trade with a random transaction hash. The
  result is the new state and the \<open>status\<close> entry of the returned dictionary. (The
  \<open>except\<close> branch, which records a failed trade, is taken only when
  \<open>record_auto_trade\<close> raises, which it does not.)
\<close>

definition execute_auto_signal ::
  "world \<Rightarrow> nat \<Rightarrow> bot_state \<Rightarrow> string \<Rightarrow> string \<Rightarrow> fl \<Rightarrow> bot_state \<times> string" where
  "execute_auto_signal w k st signal_type token_address amount =
     (if DEMO_MODE st \<or> WALLET_PRIVATE_KEY st = None \<or> WALLET_PRIVATE_KEY st = Some []
      then (record_auto_trade w k st (py_upper w signal_type) token_address amount ''DEMO'' [],
            ''demo'')
      else let tx_hash = ''0x'' @ str_int (rand_tx w k)
           in (record_auto_trade w k st (py_upper w signal_type) token_address amount
                 ''SUCCESS'' tx_hash,
               ''success''))"

text \<open>
  The token list of a DEX answer: the \<open>pairAddress\<close> of each pair, a numbered default
  for a pair without one, and of these the first three. A \<open>BUY\<close> of the same amount is
  executed for each token in turn.
\<close>

definition trending_tokens :: "string \<Rightarrow> string option list \<Rightarrow> string list" where
  "trending_tokens default_prefix pairs =
     take 3 (map (\<lambda>(i, p). case p of Some a \<Rightarrow> a | None \<Rightarrow> default_prefix @ str_nat i)
               (enumerate 0 pairs))"

definition execute_for_tokens :: "world \<Rightarrow> bot_state \<Rightarrow> string list \<Rightarrow> fl \<Rightarrow> bot_state" where
  "execute_for_tokens w st token_list amount =
     fold (\<lambda>(k, token) s. fst (execute_auto_signal w k s ''BUY'' token amount))
       (enumerate 0 token_list) st"

subsection \<open>Handlers\<close>

text \<open>
  The handlers in the order of their registration. A handler gets the world, the
  administrator's id when it reads it, the state and the message, and returns the new
  state and the messages delivered.
\<close>

definition test_command :: "world \<Rightarrow> bot_state \<Rightarrow> message \<Rightarrow> bot_state \<times> reply list" where
  "test_command w st m = (st, deliver w [Template ''bot_is_responding'' [V_str (now_hms w)]])"

definition test_all_commands :: "world \<Rightarrow> int \<Rightarrow> bot_state \<Rightarrow> message \<Rightarrow> bot_state \<times> reply list" where
  "test_all_commands w ADMIN_ID st m =
     (let user_id = from_user_id m;
          is_admin = (user_id = ADMIN_ID)
      in (st, deliver w [Template ''test_response'' [V_int user_id, V_int ADMIN_ID, V_bool is_admin]]))"

definition start_command :: "world \<Rightarrow> bot_state \<Rightarrow> message \<Rightarrow> bot_state \<times> reply list" where
  "start_command w st m = (st, deliver w [Template ''welcome_text'' []])"

definition menu_strategies :: "world \<Rightarrow> bot_state \<Rightarrow> message \<Rightarrow> bot_state \<times> reply list" where
  "menu_strategies w st m = (st, deliver w [Template ''strategies_menu'' []])"

definition menu_auto :: "world \<Rightarrow> bot_state \<Rightarrow> message \<Rightarrow> bot_state \<times> reply list" where
  "menu_auto w st m = (st, deliver w [Template ''auto_menu'' []])"

definition menu_manual :: "world \<Rightarrow> bot_state \<Rightarrow> message \<Rightarrow> bot_state \<times> reply list" where
  "menu_manual w st m = (st, deliver w [Template ''manual_menu'' []])"

definition menu_analysis :: "world \<Rightarrow> bot_state \<Rightarrow> message \<Rightarrow> bot_state \<times> reply list" where
  "menu_analysis w st m = (st, deliver w [Template ''analysis_menu'' []])"

definition menu_admin :: "world \<Rightarrow> bot_state \<Rightarrow> message \<Rightarrow> bot_state \<times> reply list" where
  "menu_admin w st m = (st, deliver w [Template ''admin_menu'' []])"

definition menu_payment :: "world \<Rightarrow> bot_state \<Rightarrow> message \<Rightarrow> bot_state \<times> reply list" where
  "menu_payment w st m = (st, deliver w [Template ''payment_menu'' []])"

definition menu_info :: "world \<Rightarrow> bot_state \<Rightarrow> message \<Rightarrow> bot_state \<times> reply list" where
  "menu_info w st m = (st, deliver w [Template ''info_menu'' []])"

definition menu_all :: "world \<Rightarrow> bot_state \<Rightarrow> message \<Rightarrow> bot_state \<times> reply list" where
  "menu_all w st m = (st, deliver w [Template ''all_commands_text'' []])"

definition international_command :: "world \<Rightarrow> bot_state \<Rightarrow> message \<Rightarrow> bot_state \<times> reply list" where
  "international_command w st m =
     (st, deliver w [Template ''international_text'' [V_str (now_hms w)]])"

definition commands_help :: "world \<Rightarrow> bot_state \<Rightarrow> message \<Rightarrow> bot_state \<times> reply list" where
  "commands_help w st m = (st, deliver w [Template ''help_text'' []])"

text \<open>
  \<open>/analyze\<close>: the strategy named by \<open>current_strategy\<close> on the timeframes
  \<open>["15m", "1h"]\<close>; a strategy name other than the first three selects the mean
  reversion strategy.
\<close>

definition analyze_command :: "world \<Rightarrow> bot_state \<Rightarrow> message \<Rightarrow> bot_state \<times> reply list" where
  "analyze_command w st m =
     (let parts = str_split (msg_text m);
          symbol = (if 1 < length parts then py_upper w (parts ! 1) else ''BTCUSDT'');
          signals =
            (if current_strategy st = ''Quantum Engine V2.0''
             then quantum_smart_money_engine_v2 w symbol [''15m'', ''1h'']
             else if current_strategy st = ''Momentum Scalper V1.0''
             then momentum_scalper_strategy w symbol [''15m'', ''1h'']
             else if current_strategy st = ''Breakout Hunter V1.0''
             then breakout_hunter_strategy w symbol [''15m'', ''1h'']
             else mean_reversion_strategy w symbol [''15m'', ''1h'']);
          n = length signals;
          confidence = (if 6 \<le> n then ''VERY HIGH'' else if 4 \<le> n then ''HIGH''
                        else if 2 \<le> n then ''MODERATE'' else ''LOW'');
          recommendation = (if 6 \<le> n then ''STRONG BUY'' else if 4 \<le> n then ''BUY''
                            else if 2 \<le> n then ''MONITOR'' else ''WAIT'');
          risk = (if 6 \<le> n then ''LOW'' else if 4 \<le> n then ''MODERATE'' else ''HIGH'')
      in (st, reply_else w
                (Template ''analysis_text''
                   [V_str symbol, V_str (current_strategy st), V_str confidence, V_int (int n),
                    V_list (take 8 signals), V_str recommendation, V_str risk])
                (Template ''analysis_error'' [])))"

text \<open>
  \<open>/signals\<close>: all four strategies on \<open>["15m"]\<close>. The strongest strategy is the first
  of the four with the largest number of signals (\<open>max\<close> with a key).
\<close>

definition strongest_strategy :: "(string \<times> nat) list \<Rightarrow> string" where
  "strongest_strategy xs = fst (foldl (\<lambda>best x. if snd best < snd x then x else best) (hd xs) (tl xs))"

definition signals_command :: "world \<Rightarrow> bot_state \<Rightarrow> message \<Rightarrow> bot_state \<times> reply list" where
  "signals_command w st m =
     (let parts = str_split (msg_text m);
          symbol = (if 1 < length parts then py_upper w (parts ! 1) else ''BTCUSDT'');
          quantum_signals = quantum_smart_money_engine_v2 w symbol [''15m''];
          momentum_signals = momentum_scalper_strategy w symbol [''15m''];
          breakout_signals = breakout_hunter_strategy w symbol [''15m''];
          reversion_signals = mean_reversion_strategy w symbol [''15m'']
      in (st, reply_else w
                (Template ''signals_text''
                   [V_str symbol,
                    V_int (int (length quantum_signals)), V_list (take 4 quantum_signals),
                    V_int (int (length momentum_signals)), V_list (take 4 momentum_signals),
                    V_int (int (length breakout_signals)), V_list (take 4 breakout_signals),
                    V_int (int (length reversion_signals)), V_list (take 4 reversion_signals),
                    V_str (strongest_strategy
                      [(''Quantum'', length quantum_signals), (''Momentum'', length momentum_signals),
                       (''Breakout'', length breakout_signals),
                       (''Reversion'', length reversion_signals)])])
                (Template ''signals_error'' [])))"

text \<open>
  \<open>/confluence\<close>: the engine on each of two timeframes, and the labels common to both
  results. \<open>overlap\<close> is a Python set: its size is the number of distinct common labels,
  and the text shows the first five in the iteration order of the set.
\<close>

definition confluence_command :: "world \<Rightarrow> bot_state \<Rightarrow> message \<Rightarrow> bot_state \<times> reply list" where
  "confluence_command w st m =
     (let parts = str_split (msg_text m) in
      if length parts < 4 then (st, reply_else w (Template ''confluence_usage'' [])
                                      (Template ''confluence_error'' []))
      else
        let symbol = py_upper w (parts ! 1);
            tf1 = parts ! 2;
            tf2 = parts ! 3;
            tf1_signals = quantum_smart_money_engine_v2 w symbol [tf1];
            tf2_signals = quantum_smart_money_engine_v2 w symbol [tf2];
            overlap = filter (\<lambda>x. x \<in> set tf2_signals) (remdups tf1_signals);
            confluence_strength =
              real (length overlap) / real (max (max (length tf1_signals) (length tf2_signals)) 1)
                * 100;
            alignment = (if 60 \<le> confluence_strength then ''EXCELLENT''
                         else if 40 \<le> confluence_strength then ''GOOD''
                         else if 20 \<le> confluence_strength then ''MODERATE'' else ''WEAK'')
        in (st, reply_else w
                  (Template ''confluence_text''
                     [V_str symbol, V_str tf1, V_int (int (length tf1_signals)),
                      V_list (take 5 tf1_signals), V_str tf2, V_int (int (length tf2_signals)),
                      V_list (take 5 tf2_signals), V_int (int (length overlap)),
                      V_list (if overlap = [] then [] else take 5 (set_order w overlap)),
                      V_num confluence_strength, V_str alignment])
                  (Template ''confluence_error'' [])))"

definition features_command :: "world \<Rightarrow> bot_state \<Rightarrow> message \<Rightarrow> bot_state \<times> reply list" where
  "features_command w st m = (st, deliver w [Template ''features_text'' []])"

definition about_command :: "world \<Rightarrow> bot_state \<Rightarrow> message \<Rightarrow> bot_state \<times> reply list" where
  "about_command w st m = (st, deliver w [Template ''about_text'' []])"

definition guide_start_command :: "world \<Rightarrow> bot_state \<Rightarrow> message \<Rightarrow> bot_state \<times> reply list" where
  "guide_start_command w st m = (st, deliver w [Template ''guide_text'' []])"

definition tutorial_command :: "world \<Rightarrow> bot_state \<Rightarrow> message \<Rightarrow> bot_state \<times> reply list" where
  "tutorial_command w st m = (st, deliver w [Template ''tutorial_text'' []])"

definition set_quantum_strategy :: "world \<Rightarrow> bot_state \<Rightarrow> message \<Rightarrow> bot_state \<times> reply list" where
  "set_quantum_strategy w st m =
     (st\<lparr>current_strategy := ''Quantum Engine V2.0''\<rparr>,
      deliver w [Strategy_set ''Quantum Engine V2.0''])"

definition set_momentum_strategy :: "world \<Rightarrow> bot_state \<Rightarrow> message \<Rightarrow> bot_state \<times> reply list" where
  "set_momentum_strategy w st m =
     (st\<lparr>current_strategy := ''Momentum Scalper V1.0''\<rparr>,
      deliver w [Strategy_set ''Momentum Scalper V1.0''])"

definition set_breakout_strategy :: "world \<Rightarrow> bot_state \<Rightarrow> message \<Rightarrow> bot_state \<times> reply list" where
  "set_breakout_strategy w st m =
     (st\<lparr>current_strategy := ''Breakout Hunter V1.0''\<rparr>,
      deliver w [Strategy_set ''Breakout Hunter V1.0''])"

definition set_meanreversion_strategy :: "world \<Rightarrow> bot_state \<Rightarrow> message \<Rightarrow> bot_state \<times> reply list" where
  "set_meanreversion_strategy w st m =
     (st\<lparr>current_strategy := ''Mean Reversion V1.0''\<rparr>,
      deliver w [Strategy_set ''Mean Reversion V1.0''])"

definition check_strategy :: "world \<Rightarrow> bot_state \<Rightarrow> message \<Rightarrow> bot_state \<times> reply list" where
  "check_strategy w st m = (st, deliver w [Current_strategy (current_strategy st)])"

definition status_command :: "world \<Rightarrow> bot_state \<Rightarrow> message \<Rightarrow> bot_state \<times> reply list" where
  "status_command w st m =
     (if auto_trader_running st
      then (st, deliver w [Status_running (current_strategy st) (current_auto st) (trade_stats st)])
      else (st, deliver w [Status_stopped (current_strategy st)]))"

text \<open>
  \<open>/autoagree\<close>. Fewer than four words: the usage text, and nothing else happens. Else
  the three session variables are assigned, the start is announced, and the loop thread
  is started. When a \<open>reply_to\<close> raises, the \<open>except\<close> branch is taken: it sends the
  error text (a second call, which may raise in its turn), the thread is not started,
  and the assignments made before stay.
\<close>

definition reply_or_error :: "world \<Rightarrow> reply \<Rightarrow> reply list" where
  "reply_or_error w r =
     (if send_ok w 0 then [r] else if send_ok w 1 then [Error_starting_auto_trader] else [])"

definition parse_leverage :: "world \<Rightarrow> string \<Rightarrow> int" where
  "parse_leverage w p =
     (if p \<noteq> [] \<and> last p = CHR ''x''
      then (case py_int w (filter (\<lambda>c. c \<noteq> CHR ''x'') p) of Some v \<Rightarrow> v | None \<Rightarrow> 10)
      else 10)"

definition autoagree_command :: "world \<Rightarrow> bot_state \<Rightarrow> message \<Rightarrow> bot_state \<times> reply list" where
  "autoagree_command w st m =
     (let parts = str_split (msg_text m) in
      if length parts < 4 then (st, reply_or_error w Usage_autoagree)
      else
        let symbol = py_upper w (parts ! 1);
            timeframes = (if 3 < length parts then butlast (drop 2 parts) else [parts ! 2]);
            leverage = parse_leverage w (last parts);
            st1 = st\<lparr>auto_trader_running := True,
                     current_auto := \<lparr>cfg_symbol = Some symbol, cfg_timeframes = timeframes,
                                       cfg_leverage = Some leverage,
                                       cfg_strategy = current_strategy st\<rparr>,
                     trade_stats := \<lparr>wins = 0, losses = 0, profit_pct = 0\<rparr>\<rparr>
        in if send_ok w 0
           then (st1\<lparr>loops := loops st1 @ [\<lparr>lt_symbol = symbol, lt_timeframes = timeframes\<rparr>]\<rparr>,
                 [Auto_trader_started (current_strategy st) symbol timeframes leverage])
           else (st1, reply_or_error w (Auto_trader_started (current_strategy st) symbol
                        timeframes leverage)))"

text \<open>
  The three commands of the autonomous execution engine, for the administrator only.
  The engine keeps its own state, outside this program's variables.
\<close>

definition auto_execution_command :: "world \<Rightarrow> int \<Rightarrow> bot_state \<Rightarrow> message \<Rightarrow> bot_state \<times> reply list" where
  "auto_execution_command w ADMIN_ID st m =
     (if from_user_id m \<noteq> ADMIN_ID
      then (st, deliver w [Template ''admin_required_autonomous_execution'' []])
      else
        let parts = str_split (msg_text m);
            symbols = (if 1 < length parts then tl parts else [''BTCUSDT'', ''ETHUSDT''])
        in case exec_start w symbols of
             None \<Rightarrow> (st, deliver w [Template ''auto_execution_error'' []])
           | Some vals \<Rightarrow>
               (st, reply_else w (Template ''autonomous_execution_started'' (V_list symbols # vals))
                      (Template ''auto_execution_error'' [])))"

definition auto_execution_status_command :: "world \<Rightarrow> int \<Rightarrow> bot_state \<Rightarrow> message \<Rightarrow> bot_state \<times> reply list" where
  "auto_execution_status_command w ADMIN_ID st m =
     (if from_user_id m \<noteq> ADMIN_ID then (st, deliver w [Template ''admin_required'' []])
      else case exec_status w of
             None \<Rightarrow> (st, deliver w [Template ''status_error'' []])
           | Some vals \<Rightarrow>
               (st, reply_else w (Template ''status_text'' vals) (Template ''status_error'' [])))"

definition stop_auto_execution_command :: "world \<Rightarrow> int \<Rightarrow> bot_state \<Rightarrow> message \<Rightarrow> bot_state \<times> reply list" where
  "stop_auto_execution_command w ADMIN_ID st m =
     (if from_user_id m \<noteq> ADMIN_ID then (st, deliver w [Template ''admin_required'' []])
      else case exec_stop w of
             None \<Rightarrow> (st, deliver w [Template ''stop_error'' []])
           | Some vals \<Rightarrow>
               (st, reply_else w (Template ''autonomous_execution_stopped'' vals)
                      (Template ''stop_error'' [])))"

definition stopauto_command :: "world \<Rightarrow> bot_state \<Rightarrow> message \<Rightarrow> bot_state \<times> reply list" where
  "stopauto_command w st m = (st\<lparr>auto_trader_running := False\<rparr>, deliver w [Auto_trader_stopped])"

definition lock_command :: "world \<Rightarrow> int \<Rightarrow> bot_state \<Rightarrow> message \<Rightarrow> bot_state \<times> reply list" where
  "lock_command w ADMIN_ID st m =
     (if from_user_id m = ADMIN_ID then (st\<lparr>bot_locked := True\<rparr>, deliver w [Bot_locked])
      else (st, deliver w [Not_authorized]))"

definition unlock_command :: "world \<Rightarrow> int \<Rightarrow> bot_state \<Rightarrow> message \<Rightarrow> bot_state \<times> reply list" where
  "unlock_command w ADMIN_ID st m =
     (if from_user_id m = ADMIN_ID then (st\<lparr>bot_locked := False\<rparr>, deliver w [Bot_unlocked])
      else (st, deliver w [Not_authorized]))"

text \<open>
  \<open>/autotrade\<close>: the administrator's request buys 0.01 of each trending token. The
  trades are recorded before the reply is sent, so they stay when the reply fails.
\<close>

definition manual_auto_trade :: "world \<Rightarrow> int \<Rightarrow> bot_state \<Rightarrow> message \<Rightarrow> bot_state \<times> reply list" where
  "manual_auto_trade w ADMIN_ID st m =
     (if from_user_id m = ADMIN_ID
      then (case dex w of
              Dex_raised \<Rightarrow> (st, deliver w [Template ''autotrade_error'' []])
            | Dex_response status_code pairs \<Rightarrow>
                if status_code = 200
                then (case pairs of
                        None \<Rightarrow> (st, deliver w [Template ''autotrade_error'' []])
                      | Some ps \<Rightarrow>
                          let token_list = trending_tokens ''TOKEN_'' ps
                          in (execute_for_tokens w st token_list (Fin (1 / 100)),
                              reply_else w
                                (Template ''manual_autotrade_executed''
                                   [V_int (int (length token_list)),
                                    V_list (map (take_chars 10) token_list)])
                                (Template ''autotrade_error'' [])))
                else (st, reply_else w (Template ''dex_api_error'' [V_int status_code])
                            (Template ''autotrade_error'' [])))
      else (st, deliver w [Template ''admin_required_manual_autotrading'' []]))"

text \<open>
  \<open>/signal ACTION TOKEN AMOUNT\<close>, for the administrator: the amount is parsed before
  the action is checked, so a wrong amount is reported first. A \<open>ValueError\<close> of
  \<open>float\<close> has its own \<open>except\<close> branch, whose reply is the first Telegram call.
\<close>

definition manual_signal :: "world \<Rightarrow> int \<Rightarrow> bot_state \<Rightarrow> message \<Rightarrow> bot_state \<times> reply list" where
  "manual_signal w ADMIN_ID st m =
     (if from_user_id m = ADMIN_ID
      then
        let parts = str_split (msg_text m) in
        if length parts \<noteq> 4
        then (st, reply_else w (Template ''signal_usage'' []) (Template ''signal_execution_error'' []))
        else
          let signal_type = py_upper w (parts ! 1);
              token_address = parts ! 2
          in case py_float w (parts ! 3) of
               None \<Rightarrow> (st, deliver w [Template ''invalid_amount'' []])
             | Some amount \<Rightarrow>
                 if signal_type \<noteq> ''BUY'' \<and> signal_type \<noteq> ''SELL''
                 then (st, reply_else w (Template ''signal_type_must_be_buy_or_sell'' [])
                             (Template ''signal_execution_error'' []))
                 else
                   let (st', status) = execute_auto_signal w 0 st signal_type token_address amount
                   in (st', reply_else w
                              (Template ''manual_signal_executed''
                                 [V_str signal_type, V_str (take_chars 10 token_address),
                                  V_flt amount, V_str (py_upper w status)])
                              (Template ''signal_execution_error'' []))
      else (st, deliver w [Template ''admin_required_manual_signals'' []]))"

definition pricing_command :: "world \<Rightarrow> bot_state \<Rightarrow> message \<Rightarrow> bot_state \<times> reply list" where
  "pricing_command w st m = (st, deliver w [Template ''pricing_text'' []])"

definition subscribe_command :: "world \<Rightarrow> bot_state \<Rightarrow> message \<Rightarrow> bot_state \<times> reply list" where
  "subscribe_command w st m = (st, deliver w [Template ''subscribe_text'' []])"

definition payment_command :: "world \<Rightarrow> bot_state \<Rightarrow> message \<Rightarrow> bot_state \<times> reply list" where
  "payment_command w st m = (st, deliver w [Template ''payment_text'' []])"

definition verify_command :: "world \<Rightarrow> int \<Rightarrow> bot_state \<Rightarrow> message \<Rightarrow> bot_state \<times> reply list" where
  "verify_command w ADMIN_ID st m =
     (if from_user_id m = ADMIN_ID then (st, deliver w [Template ''admin_use_grant'' []])
      else (st, deliver w [Template ''payment_verification'' []]))"

definition contact_command :: "world \<Rightarrow> bot_state \<Rightarrow> message \<Rightarrow> bot_state \<times> reply list" where
  "contact_command w st m = (st, deliver w [Template ''contact_text'' []])"

definition members_command :: "world \<Rightarrow> int \<Rightarrow> bot_state \<Rightarrow> message \<Rightarrow> bot_state \<times> reply list" where
  "members_command w ADMIN_ID st m =
     (if from_user_id m = ADMIN_ID
      then (let member_count = 1 in (st, deliver w [Template ''members_text'' [V_int member_count]]))
      else (st, deliver w [Template ''admin_required'' []]))"

text \<open>
  \<open>/grant USER_ID PACKAGE\<close>: after the reply the user is notified; a user id that is not
  an integer and a failing \<open>send_message\<close> are both passed over in silence.
\<close>

definition grant_command :: "world \<Rightarrow> int \<Rightarrow> bot_state \<Rightarrow> message \<Rightarrow> bot_state \<times> reply list" where
  "grant_command w ADMIN_ID st m =
     (if from_user_id m \<noteq> ADMIN_ID then (st, deliver w [Template ''admin_required'' []])
      else
        let parts = str_split (msg_text m) in
        if length parts < 3
        then (st, reply_else w (Template ''grant_usage'' []) (Template ''error_granting_access'' []))
        else
          let user_id = parts ! 1;
              package = py_lower w (parts ! 2)
          in if package \<notin> set [''basic'', ''premium'', ''vip'', ''elite'']
             then (st, reply_else w (Template ''invalid_package'' [])
                         (Template ''error_granting_access'' []))
             else if send_ok w 0
             then (st, Template ''access_granted'' [V_str user_id, V_str package] #
                       (case py_int w user_id of
                          None \<Rightarrow> []
                        | Some u \<Rightarrow>
                            if send_ok w 1
                            then [Template ''welcome_msg'' [V_int u, V_str (py_upper w package)]]
                            else []))
             else (st, if send_ok w 1 then [Template ''error_granting_access'' []] else []))"

definition revoke_command :: "world \<Rightarrow> int \<Rightarrow> bot_state \<Rightarrow> message \<Rightarrow> bot_state \<times> reply list" where
  "revoke_command w ADMIN_ID st m =
     (if from_user_id m \<noteq> ADMIN_ID then (st, deliver w [Template ''admin_required'' []])
      else
        let parts = str_split (msg_text m) in
        if length parts < 2
        then (st, reply_else w (Template ''revoke_usage'' []) (Template ''error_revoking_access'' []))
        else
          let user_id = parts ! 1
          in (st, reply_else w (Template ''access_revoked'' [V_str user_id])
                    (Template ''error_revoking_access'' [])))"

text \<open>\<open>/broadcast\<close>: the text after the first eleven characters, stripped.\<close>

definition broadcast_command :: "world \<Rightarrow> int \<Rightarrow> bot_state \<Rightarrow> message \<Rightarrow> bot_state \<times> reply list" where
  "broadcast_command w ADMIN_ID st m =
     (if from_user_id m \<noteq> ADMIN_ID then (st, deliver w [Template ''admin_required'' []])
      else
        let broadcast_msg = str_strip (drop_chars 11 (msg_text m)) in
        if broadcast_msg = []
        then (st, reply_else w (Template ''broadcast_usage'' []) (Template ''broadcast_error'' []))
        else
          let success_count = 1
          in (st, reply_else w (Template ''broadcast_sent'' [V_int success_count])
                    (Template ''broadcast_error'' [])))"

definition sendsignal_command :: "world \<Rightarrow> int \<Rightarrow> bot_state \<Rightarrow> message \<Rightarrow> bot_state \<times> reply list" where
  "sendsignal_command w ADMIN_ID st m =
     (if from_user_id m \<noteq> ADMIN_ID then (st, deliver w [Template ''admin_required'' []])
      else
        let parts = str_split (msg_text m) in
        if length parts < 4
        then (st, reply_else w (Template ''sendsignal_usage'' []) (Template ''signal_error'' []))
        else
          let action = py_upper w (parts ! 1);
              symbol = py_upper w (parts ! 2)
          in (st, reply_else w (Template ''premium_signal_broadcasted'' [V_str action, V_str symbol])
                    (Template ''signal_error'' [])))"

definition quicksignal_command :: "world \<Rightarrow> int \<Rightarrow> bot_state \<Rightarrow> message \<Rightarrow> bot_state \<times> reply list" where
  "quicksignal_command w ADMIN_ID st m =
     (if from_user_id m \<noteq> ADMIN_ID then (st, deliver w [Template ''admin_required'' []])
      else
        let parts = str_split (msg_text m);
            symbol = (if 1 < length parts then py_upper w (parts ! 1) else ''BTCUSDT'');
            signals =
              (if current_strategy st = ''Quantum Engine V2.0''
               then quantum_smart_money_engine_v2 w symbol [''15m'', ''1h'']
               else momentum_scalper_strategy w symbol [''15m'', ''1h'']);
            confidence = (if 4 \<le> length signals then ''HIGH'' else ''MODERATE'')
        in (st, reply_else w (Template ''quick_signal_sent'' [V_str symbol, V_str confidence])
                  (Template ''quick_signal_error'' [])))"

text \<open>
  \<open>/history\<close>: the last ten lines of the trade file. The text is built from the fields
  of these lines; the reply records the lines.
\<close>

definition trading_history :: "world \<Rightarrow> bot_state \<Rightarrow> message \<Rightarrow> bot_state \<times> reply list" where
  "trading_history w st m =
     (case history_file w of
        Read_raised \<Rightarrow> (st, deliver w [Template ''error_reading_history'' []])
      | No_file \<Rightarrow>
          (st, reply_else w (Template ''no_trading_history_file'' [])
                 (Template ''error_reading_history'' []))
      | File_lines file_lines \<Rightarrow>
          let recent_trades = (if 10 < length file_lines then tail 10 file_lines else file_lines)
          in if recent_trades \<noteq> []
             then (st, reply_else w (Template ''history_text'' [V_list recent_trades])
                         (Template ''error_reading_history'' []))
             else (st, reply_else w (Template ''no_trading_history'' [])
                         (Template ''error_reading_history'' [])))"

text \<open>
  The content commands. \<open>/createebook\<close>, \<open>/tradingebook\<close> and \<open>/aiautocontent\<close> start
  a thread after their reply; when the reply raises, no thread is started.
\<close>

definition create_ebook_command :: "world \<Rightarrow> int \<Rightarrow> bot_state \<Rightarrow> message \<Rightarrow> bot_state \<times> reply list" where
  "create_ebook_command w ADMIN_ID st m =
     (let user_id = from_user_id m in
      if user_id \<noteq> ADMIN_ID
      then (st, reply_else w (Template ''admin_required_your_id'' [V_int user_id, V_int ADMIN_ID])
                  (Template ''ebook_creation_error'' []))
      else
        let parts = str_split_max1 (msg_text m) in
        if length parts < 2
        then (st, reply_else w (Template ''createebook_usage'' []) (Template ''ebook_creation_error'' []))
        else
          let topic = parts ! 1
          in if send_ok w 0
             then (st\<lparr>jobs := jobs st @ [Create_ebook topic]\<rparr>,
                   [Template ''creating_professional_ebook'' [V_str topic]])
             else (st, if send_ok w 1 then [Template ''ebook_creation_error'' []] else []))"

definition content_empire_command :: "world \<Rightarrow> int \<Rightarrow> bot_state \<Rightarrow> message \<Rightarrow> bot_state \<times> reply list" where
  "content_empire_command w ADMIN_ID st m =
     (let user_id = from_user_id m in
      if user_id \<noteq> ADMIN_ID
      then (st, deliver w [Template ''admin_required_your_id'' [V_int user_id, V_int ADMIN_ID]])
      else (st, deliver w [Template ''empire_status'' []]))"

definition trading_ebook_command :: "world \<Rightarrow> int \<Rightarrow> bot_state \<Rightarrow> message \<Rightarrow> bot_state \<times> reply list" where
  "trading_ebook_command w ADMIN_ID st m =
     (let user_id = from_user_id m in
      if user_id \<noteq> ADMIN_ID
      then (st, deliver w [Template ''admin_required_your_id'' [V_int user_id, V_int ADMIN_ID]])
      else if send_ok w 0
      then (st\<lparr>jobs := jobs st @ [Create_trading_ebook]\<rparr>,
            [Template ''creating_unified_trading_mastery_ebook'' []])
      else (st, if send_ok w 1 then [Template ''trading_ebook_creation_error'' []] else []))"

definition ai_auto_content_command :: "world \<Rightarrow> int \<Rightarrow> bot_state \<Rightarrow> message \<Rightarrow> bot_state \<times> reply list" where
  "ai_auto_content_command w ADMIN_ID st m =
     (let user_id = from_user_id m in
      if user_id \<noteq> ADMIN_ID
      then (st, deliver w [Template ''admin_required_your_id'' [V_int user_id, V_int ADMIN_ID]])
      else if send_ok w 0
      then (st\<lparr>jobs := jobs st @ [Ai_content_loop]\<rparr>,
            [Template ''ai_auto_content_empire_activated'' []])
      else (st, []))"

definition professional_command :: "world \<Rightarrow> bot_state \<Rightarrow> message \<Rightarrow> bot_state \<times> reply list" where
  "professional_command w st m =
     (let user_id = from_user_id m
      in (st, reply_else w (Template ''professional_text'' [V_int user_id])
                (Template ''professional_command_error'' [])))"

text \<open>
  The catch-all handler, registered last with a filter that accepts every message: it
  gets the messages that no command handler takes.
\<close>

definition catch_all_messages :: "world \<Rightarrow> bot_state \<Rightarrow> message \<Rightarrow> bot_state \<times> reply list" where
  "catch_all_messages w st m =
     (if msg_text m \<noteq> [] \<and> hd (msg_text m) = CHR ''/''
      then (let command = hd (str_split (msg_text m))
            in (st, deliver w [Template ''command_received''
                                 [V_str command, V_str (now_hms w), V_int (from_user_id m)]]))
      else (st, deliver w [Template ''hello'' []]))"

subsection \<open>Dispatch\<close>

text \<open>
  The command of a message as pyTelegramBotAPI extracts it: the first word without its
  slash and without a \<open>@botname\<close> suffix; none when the text does not start with a
  slash.
\<close>

definition extract_command :: "string \<Rightarrow> string option" where
  "extract_command t =
     (if t \<noteq> [] \<and> hd t = CHR ''/''
      then Some (tl (takeWhile (\<lambda>c. c \<noteq> CHR ''@'') (hd (str_split t))))
      else None)"

text \<open>
  The registrations of \<open>@bot.message_handler(commands=[...])\<close>, in the order of the
  source. The library gives a message to the first registered handler whose filter
  accepts it, so the second registrations of \<open>contentempire\<close>, \<open>createebook\<close> and
  \<open>aiautocontent\<close> (lines 2259, 2301 and 2402, with the bodies of the first ones) never
  get a message; the catch-all handler comes after all of them.
\<close>

type_synonym handler = "world \<Rightarrow> int \<Rightarrow> bot_state \<Rightarrow> message \<Rightarrow> bot_state \<times> reply list"

definition handlers :: "(string list \<times> handler) list" where
  "handlers =
     [([''test'', ''ping''], \<lambda>w ADMIN_ID. test_command w),
      ([''testall'', ''checkcommands''], test_all_commands),
      ([''start''], \<lambda>w ADMIN_ID. start_command w),
      ([''menu_strategies''], \<lambda>w ADMIN_ID. menu_strategies w),
      ([''menu_auto''], \<lambda>w ADMIN_ID. menu_auto w),
      ([''menu_manual''], \<lambda>w ADMIN_ID. menu_manual w),
      ([''menu_analysis''], \<lambda>w ADMIN_ID. menu_analysis w),
      ([''menu_admin''], \<lambda>w ADMIN_ID. menu_admin w),
      ([''menu_payment''], \<lambda>w ADMIN_ID. menu_payment w),
      ([''menu_info''], \<lambda>w ADMIN_ID. menu_info w),
      ([''menu_all''], \<lambda>w ADMIN_ID. menu_all w),
      ([''international''], \<lambda>w ADMIN_ID. international_command w),
      ([''help''], \<lambda>w ADMIN_ID. commands_help w),
      ([''analyze''], \<lambda>w ADMIN_ID. analyze_command w),
      ([''signals''], \<lambda>w ADMIN_ID. signals_command w),
      ([''confluence''], \<lambda>w ADMIN_ID. confluence_command w),
      ([''features''], \<lambda>w ADMIN_ID. features_command w),
      ([''about''], \<lambda>w ADMIN_ID. about_command w),
      ([''guide_start''], \<lambda>w ADMIN_ID. guide_start_command w),
      ([''tutorial''], \<lambda>w ADMIN_ID. tutorial_command w),
      ([''quantum''], \<lambda>w ADMIN_ID. set_quantum_strategy w),
      ([''momentum''], \<lambda>w ADMIN_ID. set_momentum_strategy w),
      ([''breakout''], \<lambda>w ADMIN_ID. set_breakout_strategy w),
      ([''meanreversion''], \<lambda>w ADMIN_ID. set_meanreversion_strategy w),
      ([''strategy''], \<lambda>w ADMIN_ID. check_strategy w),
      ([''status''], \<lambda>w ADMIN_ID. status_command w),
      ([''autoagree''], \<lambda>w ADMIN_ID. autoagree_command w),
      ([''autoexec'', ''fullauto''], auto_execution_command),
      ([''autoexecstatus'', ''execstatus''], auto_execution_status_command),
      ([''stopexec'', ''autoexecstop''], stop_auto_execution_command),
      ([''stopauto''], \<lambda>w ADMIN_ID. stopauto_command w),
      ([''lock''], lock_command),
      ([''unlock''], unlock_command),
      ([''autotrade''], manual_auto_trade),
      ([''signal''], manual_signal),
      ([''pricing''], \<lambda>w ADMIN_ID. pricing_command w),
      ([''subscribe''], \<lambda>w ADMIN_ID. subscribe_command w),
      ([''payment''], \<lambda>w ADMIN_ID. payment_command w),
      ([''verify''], verify_command),
      ([''contact''], \<lambda>w ADMIN_ID. contact_command w),
      ([''members''], members_command),
      ([''grant''], grant_command),
      ([''revoke''], revoke_command),
      ([''broadcast''], broadcast_command),
      ([''sendsignal''], sendsignal_command),
      ([''quicksignal''], quicksignal_command),
      ([''history''], \<lambda>w ADMIN_ID. trading_history w),
      ([''createebook''], create_ebook_command),
      ([''contentempire''], content_empire_command),
      ([''tradingebook''], trading_ebook_command),
      ([''aiautocontent'', ''autocontent''], ai_auto_content_command),
      ([''professional''], \<lambda>w ADMIN_ID. professional_command w),
      ([''contentempire''], content_empire_command),
      ([''createebook''], create_ebook_command),
      ([''aiautocontent'', ''autocontent''], ai_auto_content_command)]"

fun dispatch :: "(string list \<times> handler) list \<Rightarrow> string option \<Rightarrow> handler" where
  "dispatch [] cmd = (\<lambda>w ADMIN_ID. catch_all_messages w)"
| "dispatch ((commands, h) # registered) cmd =
     (if (case cmd of Some c \<Rightarrow> c \<in> set commands | None \<Rightarrow> False) then h
      else dispatch registered cmd)"

definition handle_message :: "world \<Rightarrow> int \<Rightarrow> bot_state \<Rightarrow> message \<Rightarrow> bot_state \<times> reply list" where
  "handle_message w ADMIN_ID st m =
     dispatch handlers (extract_command (msg_text m)) w ADMIN_ID st m"

subsection \<open>The scheduler loop\<close>

text \<open>The strategy call of one cycle (lines 1304 to 1313).\<close>

definition cycle_confirmations :: "world \<Rightarrow> bot_state \<Rightarrow> loop_thread \<Rightarrow> string list" where
  "cycle_confirmations w st t =
     (if current_strategy st = ''Quantum Engine V2.0''
      then quantum_smart_money_engine_v2 w (lt_symbol t) (lt_timeframes t)
      else if current_strategy st = ''Momentum Scalper V1.0''
      then momentum_scalper_strategy w (lt_symbol t) (lt_timeframes t)
      else if current_strategy st = ''Breakout Hunter V1.0''
      then breakout_hunter_strategy w (lt_symbol t) (lt_timeframes t)
      else if current_strategy st = ''Mean Reversion V1.0''
      then mean_reversion_strategy w (lt_symbol t) (lt_timeframes t)
      else quantum_smart_money_engine_v2 w (lt_symbol t) (lt_timeframes t))"

text \<open>
  One cycle of \<open>auto_trade_loop\<close>: the counters are updated before the notification is
  sent, so a failing \<open>send_message\<close> (caught and printed) leaves them updated.
\<close>

definition auto_trade_cycle :: "world \<Rightarrow> bot_state \<Rightarrow> loop_thread \<Rightarrow> bot_state \<times> reply list" where
  "auto_trade_cycle w st t =
     (let confirmations = cycle_confirmations w st t;
          signal_count = length confirmations
      in if 6 \<le> signal_count
         then (st\<lparr>trade_stats := (trade_stats st)\<lparr>wins := wins (trade_stats st) + 1,
                      profit_pct := profit_pct (trade_stats st) + 35\<rparr>\<rparr>,
               deliver w [Strong_signal (lt_symbol t) signal_count (current_strategy st) confirmations])
         else if 3 \<le> signal_count \<and> signal_count < 6
         then (st\<lparr>trade_stats := (trade_stats st)\<lparr>losses := losses (trade_stats st) + 1,
                      profit_pct := profit_pct (trade_stats st) - 8\<rparr>\<rparr>,
               deliver w [Weak_confluence (lt_symbol t) signal_count (current_strategy st) confirmations])
         else (st, deliver w [Waiting_for_alignment (lt_symbol t) signal_count (current_strategy st)]))"

subsection \<open>The DEX loop and the content threads\<close>

text \<open>
  One cycle of \<open>auto_trade_dex_loop\<close>, the thread started with the bot (line 2487):
  while no session runs it buys 0.005 of each trending token; it sends nothing, and
  every exception is caught and printed.
\<close>

definition auto_trade_dex_cycle :: "world \<Rightarrow> bot_state \<Rightarrow> bot_state" where
  "auto_trade_dex_cycle w st =
     (if \<not> auto_trader_running st
      then (case dex w of
              Dex_raised \<Rightarrow> st
            | Dex_response status_code pairs \<Rightarrow>
                if status_code = 200
                then (case pairs of
                        None \<Rightarrow> st
                      | Some ps \<Rightarrow>
                          execute_for_tokens w st (trending_tokens ''AUTO_TOKEN_'' ps) (Fin (5 / 1000)))
                else st)
      else st)"

text \<open>
  A content thread writes one file under \<open>content/\<close> and tells the administrator; when
  the write or the \<open>send_message\<close> raises, the \<open>except\<close> branch sends the failure text
  (as the next Telegram call). The name of the file is built from the topic and the
  clock; the contents of the file are fixed text around the topic.
\<close>

definition run_job :: "world \<Rightarrow> bot_state \<Rightarrow> job \<Rightarrow> bot_state \<times> reply list" where
  "run_job w st j =
     (let (filename, success_msg, failure_msg) =
            (case j of
               Create_ebook topic \<Rightarrow>
                 (let filename = ''professional_ebook_'' @
                        py_lower w (map (\<lambda>c. if c = CHR '' '' then CHR ''_'' else c) topic) @ ''_'' @
                        str_int (clock w 0) @ ''.txt''
                  in (filename, Template ''ebook_created'' [V_str topic, V_str filename],
                      Template ''ebook_creation_failed'' []))
             | Create_trading_ebook \<Rightarrow>
                 (let filename = ''unified_trading_mastery_ebook_'' @ str_int (clock w 0) @ ''.txt''
                  in (filename, Template ''trading_ebook_created'' [V_str filename],
                      Template ''trading_ebook_creation_failed'' []))
             | Ai_content_loop \<Rightarrow>
                 (let topic = ''Advanced Trading Psychology Mastery'';
                      filename = ''auto_ebook_'' @
                        py_lower w (map (\<lambda>c. if c = CHR '' '' then CHR ''_'' else c) topic) @ ''_'' @
                        str_int (clock w 0) @ ''.txt''
                  in (filename, Template ''ai_auto_content_generated'' [V_str topic, V_str filename],
                      Template ''ai_content_error'' [])))
      in if file_ok w
         then (st\<lparr>content_files := content_files st @ [filename]\<rparr>,
               reply_else w success_msg failure_msg)
         else (st, deliver w [failure_msg]))"

subsection \<open>Runs of the bot\<close>

text \<open>
  The bot handles one message at a time (\<open>TeleBot(threaded=False)\<close>); a loop thread
  wakes from its sleep, tests \<open>while auto_trader_running\<close>, and runs one cycle or ends;
  the DEX loop wakes and runs one cycle; a content thread runs and ends. A run is a
  sequence of such events, each with the world it meets. A cycle is taken as one step:
  no other event falls inside it.
\<close>

datatype event = Message message | Wake nat | Dex_wake | Job nat

definition step :: "world \<Rightarrow> int \<Rightarrow> bot_state \<Rightarrow> event \<Rightarrow> bot_state \<times> reply list" where
  "step w ADMIN_ID st ev =
     (case ev of
        Message m \<Rightarrow> handle_message w ADMIN_ID st m
      | Wake i \<Rightarrow>
          if i < length (loops st)
          then (if auto_trader_running st then auto_trade_cycle w st (loops st ! i)
                else (st\<lparr>loops := take i (loops st) @ drop (Suc i) (loops st)\<rparr>, []))
          else (st, [])
      | Dex_wake \<Rightarrow> (auto_trade_dex_cycle w st, [])
      | Job i \<Rightarrow>
          if i < length (jobs st)
          then run_job w (st\<lparr>jobs := take i (jobs st) @ drop (Suc i) (jobs st)\<rparr>) (jobs st ! i)
          else (st, []))"

fun run :: "int \<Rightarrow> (world \<times> event) list \<Rightarrow> bot_state \<Rightarrow> bot_state" where
  "run ADMIN_ID [] st = st"
| "run ADMIN_ID ((w, ev) # evs) st = run ADMIN_ID evs (fst (step w ADMIN_ID st ev))"


section \<open>Names used in the statements, and example inputs\<close>

text \<open>The labels the engine can append, in the order of its \<open>append\<close> statements.\<close>

definition candidates :: "string list" where
  "candidates =
     [''Order Block Break'', ''Fair Value Gap'', ''Break of Structure'',
      ''EMA + MACD Confluence'', ''SuperTrend Signal'', ''Bollinger Squeeze'',
      ''Breakout Confirmation'', ''Volume Surge'', ''Hidden Divergence'',
      quantum_approval_label]"

text \<open>The price and volume columns of a row (all columns but the timestamp).\<close>

definition ohlcv :: "candle \<Rightarrow> real \<times> real \<times> real \<times> real \<times> real" where
  "ohlcv c = (open_price c, high c, low c, close c, volume c)"

text \<open>
  A world in which every request to the exchange and to the DEX endpoint fails, the
  clock stands at 0, nothing raises, \<open>random.sample\<close> returns the whole list, Telegram
  delivers, the files can be written and the execution engine raises; the \<open>i\<close>-th draw
  after \<open>np.random.seed(n)\<close> is \<open>1 / (n + i + 2)\<close>, and the library functions are the
  ASCII ones. Then variants of it: another sample size, a fault, a later clock with a
  different failure of the exchange and another state of the generator, and a DEX
  endpoint that answers.
\<close>

definition w0 :: world where
  "w0 = \<lparr>api = (\<lambda>s t l. Request_failed), clock = (\<lambda>i. 0), fault = None,
         rand_sample = (\<lambda>xs. xs), rand_tx = (\<lambda>k. 100000), np_state = (\<lambda>i. 0),
         set_order = (\<lambda>xs. xs), now_hms = ''00:00:00'',
         now_stamp = (\<lambda>k. ''1970-01-01 00:00:00''), send_ok = (\<lambda>k. True),
         dex = Dex_raised, csv_ok = (\<lambda>k. True), history_file = No_file, file_ok = True,
         exec_start = (\<lambda>symbols. None), exec_status = None, exec_stop = None,
         np_seed = (\<lambda>n i. 1 / real (n + i + 2)),
         py_upper = ascii_upper, py_lower = ascii_lower, py_int = ascii_int,
         py_float = ascii_float\<rparr>"

definition w_pick :: "nat \<Rightarrow> world" where
  "w_pick k = w0\<lparr>rand_sample := take k\<rparr>"

definition w_fault :: world where
  "w_fault = w0\<lparr>fault := Some (Py_exception ''MemoryError'')\<rparr>"

definition w_late :: world where
  "w_late = w0\<lparr>api := (\<lambda>s t l. Api_reply 10001 []), clock := (\<lambda>i. 60),
               np_state := (\<lambda>i. 1 / 2)\<rparr>"

definition w_dex :: world where
  "w_dex = w0\<lparr>dex := Dex_response 200 (Some [Some ''0xaaa'', None])\<rparr>"

text \<open>Three rows: a flat start, then a jump in price and volume.\<close>

definition df3 :: dataframe where
  "df3 = [\<lparr>timestamp = ''1'', open_price = 10, high = 11, low = 9, close = 10, volume = 1\<rparr>,
          \<lparr>timestamp = ''2'', open_price = 10, high = 11, low = 9, close = 10, volume = 1\<rparr>,
          \<lparr>timestamp = ''3'', open_price = 19, high = 21, low = 19, close = 20, volume = 10\<rparr>]"

definition w3 :: world where
  "w3 = w0\<lparr>api := (\<lambda>s t l. Api_reply 0 df3)\<rparr>"







text \<open>Messages, a loop thread, and two states.\<close>

definition m_start :: message where
  "m_start = \<lparr>from_user_id = 7, msg_text = ''/autoagree BTCUSDT 15m 1h 10x''\<rparr>"

definition m_short :: message where
  "m_short = \<lparr>from_user_id = 7, msg_text = ''/autoagree BTCUSDT 10x''\<rparr>"

definition m_momentum :: message where
  "m_momentum = \<lparr>from_user_id = 7, msg_text = ''/momentum''\<rparr>"

definition m_signal :: message where
  "m_signal = \<lparr>from_user_id = 1, msg_text = ''/signal BUY 0xaaa 0.01''\<rparr>"

definition t0 :: loop_thread where
  "t0 = \<lparr>lt_symbol = ''BTCUSDT'', lt_timeframes = [''15m'', ''1h'']\<rparr>"

definition st_momentum :: bot_state where
  "st_momentum = initial_state\<lparr>current_strategy := ''Momentum Scalper V1.0''\<rparr>"

definition st_prev :: bot_state where
  "st_prev = initial_state\<lparr>trade_stats := \<lparr>wins = 2, losses = 1, profit_pct = 62\<rparr>\<rparr>"

section \<open>The EMA of period 1\<close>

lemma ewm_from_one: "ewm_from 1 y xs = xs"
  by (induction xs arbitrary: y) simp_all

lemma ewm_rows_one: "ewm_rows 1 xs = xs"
  by (cases xs) (simp_all add: ewm_from_one)

text \<open>
  Claim C8. With \<open>period = 1\<close> the smoothing factor is \<open>2 / (1 + 1) = 1\<close>, and
  \<open>calculate_ema\<close> returns the close column itself, row for row, for every frame (the
  empty one included).
\<close>

theorem ema_period_one: "calculate_ema df 1 = map close df"
  by (simp add: calculate_ema_def ewm_mean_def ewm_rows_one)

section \<open>The scheduler cycle\<close>

text \<open>
  Claim C2. What a cycle does to the counters depends only on the number \<open>n\<close> of
  confirmations its strategy returned: six or more add one win and 35 to the profit,
  three to five add one loss and take 8 from the profit, fewer than three change
  nothing.
\<close>

theorem cycle_outcome_by_count:
  fixes w st t
  defines "n \<equiv> length (cycle_confirmations w st t)"
  defines "st' \<equiv> fst (auto_trade_cycle w st t)"
  shows "(6 \<le> n \<longrightarrow>
            wins (trade_stats st') = wins (trade_stats st) + 1 \<and>
            profit_pct (trade_stats st') = profit_pct (trade_stats st) + 35 \<and>
            losses (trade_stats st') = losses (trade_stats st)) \<and>
         (3 \<le> n \<and> n \<le> 5 \<longrightarrow>
            losses (trade_stats st') = losses (trade_stats st) + 1 \<and>
            profit_pct (trade_stats st') = profit_pct (trade_stats st) - 8 \<and>
            wins (trade_stats st') = wins (trade_stats st)) \<and>
         (n < 3 \<longrightarrow> trade_stats st' = trade_stats st)"
  unfolding n_def st'_def auto_trade_cycle_def by (simp add: Let_def)

lemma momentum_pick:
  "cycle_confirmations (w_pick k) st_momentum t0 =
     take k [''Momentum Break'', ''Volume Spike'', ''RSI Oversold'', ''EMA Golden Cross'',
             ''Price Acceleration'', ''Trend Continuation'']"
  by (simp add: cycle_confirmations_def st_momentum_def momentum_scalper_strategy_def
      w_pick_def w0_def)

theorem cycle_outcome_by_count_witness:
  "wins (trade_stats (fst (auto_trade_cycle (w_pick 6) st_momentum t0))) = 1 \<and>
   profit_pct (trade_stats (fst (auto_trade_cycle (w_pick 6) st_momentum t0))) = 35 \<and>
   losses (trade_stats (fst (auto_trade_cycle (w_pick 3) st_momentum t0))) = 1 \<and>
   profit_pct (trade_stats (fst (auto_trade_cycle (w_pick 3) st_momentum t0))) = - 8 \<and>
   trade_stats (fst (auto_trade_cycle (w_pick 2) st_momentum t0)) =
     \<lparr>wins = 0, losses = 0, profit_pct = 0\<rparr>"
  using cycle_outcome_by_count [of "w_pick 6" st_momentum t0]
    cycle_outcome_by_count [of "w_pick 3" st_momentum t0]
    cycle_outcome_by_count [of "w_pick 2" st_momentum t0]
  by (simp add: momentum_pick) (simp add: st_momentum_def initial_state_def)


section \<open>Starting and stopping a session\<close>

lemma butlast_drop2_Nil: "butlast (drop 2 parts) = [] \<longleftrightarrow> length parts \<le> 3"
proof -
  have "butlast (drop 2 parts) = [] \<longleftrightarrow> length (butlast (drop 2 parts)) = 0"
    by (simp only: length_0_conv)
  also have "\<dots> \<longleftrightarrow> length parts \<le> 3"
    by (simp only: length_butlast length_drop) arith
  finally show ?thesis .
qed

lemma autoagree_short:
  "length (str_split (msg_text m)) < 4 \<Longrightarrow>
   autoagree_command w st m = (st, reply_or_error w Usage_autoagree)"
  by (simp add: autoagree_command_def Let_def)

lemma split_m_start:
  "str_split (msg_text m_start) = [''/autoagree'', ''BTCUSDT'', ''15m'', ''1h'', ''10x'']"
  unfolding m_start_def by code_simp

lemma split_m_short: "str_split (msg_text m_short) = [''/autoagree'', ''BTCUSDT'', ''10x'']"
  unfolding m_short_def by code_simp

lemma command_m_start: "extract_command (msg_text m_start) = Some ''autoagree''"
  using split_m_start by (simp add: extract_command_def) (simp add: m_start_def)

text \<open>
  Claim C6. A start request whose words give no timeframe (\<open>parts[2:-1]\<close> is empty) or
  no symbol is answered with the usage text and changes nothing: the state after the
  handler is the state before it, so \<open>auto_trader_running\<close> stays as it was and the
  counters are not reset. The user gets the usage text; when that call to Telegram
  fails, the error text that ends with the usage line, if this second call succeeds.
\<close>

theorem autoagree_rejects_empty_timeframes:
  assumes "butlast (drop 2 (str_split (msg_text m))) = [] \<or> length (str_split (msg_text m)) < 2"
  shows "autoagree_command w st m =
           (st, if send_ok w 0 then [Usage_autoagree]
                else if send_ok w 1 then [Error_starting_auto_trader] else [])"
proof -
  from assms have "length (str_split (msg_text m)) < 4"
    using butlast_drop2_Nil [of "str_split (msg_text m)"] by auto
  then show ?thesis by (simp add: autoagree_short reply_or_error_def)
qed

theorem autoagree_rejects_empty_timeframes_witness:
  "butlast (drop 2 (str_split (msg_text m_short))) = [] \<and>
   autoagree_command w0 st_prev m_short = (st_prev, [Usage_autoagree]) \<and>
   auto_trader_running (fst (autoagree_command w0 st_prev m_short)) = False \<and>
   trade_stats (fst (autoagree_command w0 st_prev m_short)) =
     \<lparr>wins = 2, losses = 1, profit_pct = 62\<rparr>"
proof -
  have h: "butlast (drop 2 (str_split (msg_text m_short))) = []"
    by (simp add: split_m_short)
  show ?thesis
    using h autoagree_rejects_empty_timeframes [of m_short w0 st_prev]
    by (simp add: w0_def st_prev_def initial_state_def)
qed


section \<open>How many scheduler loops run\<close>

lemma upper_BTCUSDT: "ascii_upper ''BTCUSDT'' = ''BTCUSDT''"
  by code_simp

lemma leverage_10x: "parse_leverage w0 ''10x'' = 10"
proof -
  have "ascii_int ''10'' = Some 10" by code_simp
  then show ?thesis by (simp add: parse_leverage_def w0_def)
qed

lemma dispatch_autoagree:
  "dispatch handlers (Some ''autoagree'') = (\<lambda>w ADMIN_ID. autoagree_command w)"
  by (simp add: handlers_def)

lemma dispatch_momentum:
  "dispatch handlers (Some ''momentum'') = (\<lambda>w ADMIN_ID. set_momentum_strategy w)"
  by (simp add: handlers_def)

lemma command_m_momentum: "extract_command (msg_text m_momentum) = Some ''momentum''"
  unfolding m_momentum_def by code_simp

lemma start_accepted:
  "fst (handle_message w0 1 st m_start) =
     st\<lparr>auto_trader_running := True,
        current_auto := \<lparr>cfg_symbol = Some ''BTCUSDT'', cfg_timeframes = [''15m'', ''1h''],
                          cfg_leverage = Some 10, cfg_strategy = current_strategy st\<rparr>,
        trade_stats := \<lparr>wins = 0, losses = 0, profit_pct = 0\<rparr>,
        loops := loops st @ [t0]\<rparr>"
proof -
  have u: "py_upper w0 ''BTCUSDT'' = ''BTCUSDT''" by (simp add: w0_def upper_BTCUSDT)
  have s: "send_ok w0 0" by (simp add: w0_def)
  show ?thesis
    by (simp add: handle_message_def command_m_start dispatch_autoagree autoagree_command_def
        split_m_start Let_def u s leverage_10x t0_def)
qed

lemma first_start:
  "fst (handle_message w0 1 initial_state m_start) =
     initial_state\<lparr>auto_trader_running := True,
       current_auto := \<lparr>cfg_symbol = Some ''BTCUSDT'', cfg_timeframes = [''15m'', ''1h''],
                         cfg_leverage = Some 10, cfg_strategy = ''Quantum Engine V2.0''\<rparr>,
       loops := [t0]\<rparr>"
  by (simp add: start_accepted) (simp add: initial_state_def)

lemma momentum_set:
  "fst (handle_message w0 1 st m_momentum) = st\<lparr>current_strategy := ''Momentum Scalper V1.0''\<rparr>"
  by (simp add: handle_message_def command_m_momentum dispatch_momentum set_momentum_strategy_def)

lemma momentum_cycle:
  assumes "current_strategy st = ''Momentum Scalper V1.0''"
  shows "fst (auto_trade_cycle w0 st t) =
           st\<lparr>trade_stats := (trade_stats st)\<lparr>wins := wins (trade_stats st) + 1,
                  profit_pct := profit_pct (trade_stats st) + 35\<rparr>\<rparr>"
  using assms
  by (simp add: auto_trade_cycle_def cycle_confirmations_def momentum_scalper_strategy_def
      w0_def Let_def)

text \<open>
  Claim C7. At most one scheduler loop is to be active at a time: a start request made
  while a session runs either stops the loop started before or is rejected, so that two
  evaluation loops never run side by side. The program does neither. \<open>/autoagree\<close>
  sets the one flag \<open>auto_trader_running\<close>, overwrites the one \<open>current_auto\<close>, resets
  the one \<open>trade_stats\<close> and starts a thread, without a test of the flag and without a
  handle on the thread started before. After two start requests in a row two loops are
  alive and the flag is true; when each of them wakes it runs a cycle, and both add to
  the counters of the one session (here two wins for one pass of the 10 seconds).
\<close>

theorem two_starts_leave_two_loops:
  "length (loops (run 1 [(w0, Message m_start), (w0, Message m_start)] initial_state)) = 2 \<and>
   auto_trader_running (run 1 [(w0, Message m_start), (w0, Message m_start)] initial_state) \<and>
   loops (run 1 [(w0, Message m_momentum), (w0, Message m_start), (w0, Message m_start)]
            initial_state) = [t0, t0] \<and>
   wins (trade_stats
     (run 1 [(w0, Message m_momentum), (w0, Message m_start), (w0, Message m_start),
             (w0, Wake 0), (w0, Wake 1)] initial_state)) = 2"
  by (simp add: step_def start_accepted momentum_set momentum_cycle)
     (simp add: initial_state_def)


section \<open>The lock flag\<close>

lemma record_ignores_lock:
  "record_auto_trade w k (st\<lparr>bot_locked := b\<rparr>) action token amount status tx_hash =
     (record_auto_trade w k st action token amount status tx_hash)\<lparr>bot_locked := b\<rparr>"
  by (simp add: record_auto_trade_def)

lemma execute_ignores_lock:
  "execute_auto_signal w k (st\<lparr>bot_locked := b\<rparr>) signal_type token amount =
     ((fst (execute_auto_signal w k st signal_type token amount))\<lparr>bot_locked := b\<rparr>,
      snd (execute_auto_signal w k st signal_type token amount))"
  by (simp add: execute_auto_signal_def record_ignores_lock Let_def)

lemma fold_execute_ignores_lock:
  "fold (\<lambda>(k, token) s. fst (execute_auto_signal w k s ''BUY'' token amount)) xs
     (st\<lparr>bot_locked := b\<rparr>) =
   (fold (\<lambda>(k, token) s. fst (execute_auto_signal w k s ''BUY'' token amount)) xs st)
     \<lparr>bot_locked := b\<rparr>"
  by (induction xs arbitrary: st) (simp_all add: execute_ignores_lock split: prod.splits)

lemma execute_for_tokens_ignores_lock:
  "execute_for_tokens w (st\<lparr>bot_locked := b\<rparr>) token_list amount =
     (execute_for_tokens w st token_list amount)\<lparr>bot_locked := b\<rparr>"
  by (simp add: execute_for_tokens_def fold_execute_ignores_lock)

lemma test_command_ignores_lock:
  "test_command w (st\<lparr>bot_locked := b\<rparr>) m =
     ((fst (test_command w st m))\<lparr>bot_locked := b\<rparr>, snd (test_command w st m))"
  by (simp add: test_command_def Let_def execute_ignores_lock execute_for_tokens_ignores_lock
      split: option.splits dex_reply.splits history_read.splits prod.splits)

lemma test_all_commands_ignores_lock:
  "test_all_commands w ADMIN_ID (st\<lparr>bot_locked := b\<rparr>) m =
     ((fst (test_all_commands w ADMIN_ID st m))\<lparr>bot_locked := b\<rparr>, snd (test_all_commands w ADMIN_ID st m))"
  by (simp add: test_all_commands_def Let_def execute_ignores_lock execute_for_tokens_ignores_lock
      split: option.splits dex_reply.splits history_read.splits prod.splits)

lemma start_command_ignores_lock:
  "start_command w (st\<lparr>bot_locked := b\<rparr>) m =
     ((fst (start_command w st m))\<lparr>bot_locked := b\<rparr>, snd (start_command w st m))"
  by (simp add: start_command_def Let_def execute_ignores_lock execute_for_tokens_ignores_lock
      split: option.splits dex_reply.splits history_read.splits prod.splits)

lemma menu_strategies_ignores_lock:
  "menu_strategies w (st\<lparr>bot_locked := b\<rparr>) m =
     ((fst (menu_strategies w st m))\<lparr>bot_locked := b\<rparr>, snd (menu_strategies w st m))"
  by (simp add: menu_strategies_def Let_def execute_ignores_lock execute_for_tokens_ignores_lock
      split: option.splits dex_reply.splits history_read.splits prod.splits)

lemma menu_auto_ignores_lock:
  "menu_auto w (st\<lparr>bot_locked := b\<rparr>) m =
     ((fst (menu_auto w st m))\<lparr>bot_locked := b\<rparr>, snd (menu_auto w st m))"
  by (simp add: menu_auto_def Let_def execute_ignores_lock execute_for_tokens_ignores_lock
      split: option.splits dex_reply.splits history_read.splits prod.splits)

lemma menu_manual_ignores_lock:
  "menu_manual w (st\<lparr>bot_locked := b\<rparr>) m =
     ((fst (menu_manual w st m))\<lparr>bot_locked := b\<rparr>, snd (menu_manual w st m))"
  by (simp add: menu_manual_def Let_def execute_ignores_lock execute_for_tokens_ignores_lock
      split: option.splits dex_reply.splits history_read.splits prod.splits)

lemma menu_analysis_ignores_lock:
  "menu_analysis w (st\<lparr>bot_locked := b\<rparr>) m =
     ((fst (menu_analysis w st m))\<lparr>bot_locked := b\<rparr>, snd (menu_analysis w st m))"
  by (simp add: menu_analysis_def Let_def execute_ignores_lock execute_for_tokens_ignores_lock
      split: option.splits dex_reply.splits history_read.splits prod.splits)

lemma menu_admin_ignores_lock:
  "menu_admin w (st\<lparr>bot_locked := b\<rparr>) m =
     ((fst (menu_admin w st m))\<lparr>bot_locked := b\<rparr>, snd (menu_admin w st m))"
  by (simp add: menu_admin_def Let_def execute_ignores_lock execute_for_tokens_ignores_lock
      split: option.splits dex_reply.splits history_read.splits prod.splits)

lemma menu_payment_ignores_lock:
  "menu_payment w (st\<lparr>bot_locked := b\<rparr>) m =
     ((fst (menu_payment w st m))\<lparr>bot_locked := b\<rparr>, snd (menu_payment w st m))"
  by (simp add: menu_payment_def Let_def execute_ignores_lock execute_for_tokens_ignores_lock
      split: option.splits dex_reply.splits history_read.splits prod.splits)

lemma menu_info_ignores_lock:
  "menu_info w (st\<lparr>bot_locked := b\<rparr>) m =
     ((fst (menu_info w st m))\<lparr>bot_locked := b\<rparr>, snd (menu_info w st m))"
  by (simp add: menu_info_def Let_def execute_ignores_lock execute_for_tokens_ignores_lock
      split: option.splits dex_reply.splits history_read.splits prod.splits)

lemma menu_all_ignores_lock:
  "menu_all w (st\<lparr>bot_locked := b\<rparr>) m =
     ((fst (menu_all w st m))\<lparr>bot_locked := b\<rparr>, snd (menu_all w st m))"
  by (simp add: menu_all_def Let_def execute_ignores_lock execute_for_tokens_ignores_lock
      split: option.splits dex_reply.splits history_read.splits prod.splits)

lemma international_command_ignores_lock:
  "international_command w (st\<lparr>bot_locked := b\<rparr>) m =
     ((fst (international_command w st m))\<lparr>bot_locked := b\<rparr>, snd (international_command w st m))"
  by (simp add: international_command_def Let_def execute_ignores_lock execute_for_tokens_ignores_lock
      split: option.splits dex_reply.splits history_read.splits prod.splits)

lemma commands_help_ignores_lock:
  "commands_help w (st\<lparr>bot_locked := b\<rparr>) m =
     ((fst (commands_help w st m))\<lparr>bot_locked := b\<rparr>, snd (commands_help w st m))"
  by (simp add: commands_help_def Let_def execute_ignores_lock execute_for_tokens_ignores_lock
      split: option.splits dex_reply.splits history_read.splits prod.splits)

lemma analyze_command_ignores_lock:
  "analyze_command w (st\<lparr>bot_locked := b\<rparr>) m =
     ((fst (analyze_command w st m))\<lparr>bot_locked := b\<rparr>, snd (analyze_command w st m))"
  by (simp add: analyze_command_def Let_def execute_ignores_lock execute_for_tokens_ignores_lock
      split: option.splits dex_reply.splits history_read.splits prod.splits)

lemma signals_command_ignores_lock:
  "signals_command w (st\<lparr>bot_locked := b\<rparr>) m =
     ((fst (signals_command w st m))\<lparr>bot_locked := b\<rparr>, snd (signals_command w st m))"
  by (simp add: signals_command_def Let_def execute_ignores_lock execute_for_tokens_ignores_lock
      split: option.splits dex_reply.splits history_read.splits prod.splits)

lemma confluence_command_ignores_lock:
  "confluence_command w (st\<lparr>bot_locked := b\<rparr>) m =
     ((fst (confluence_command w st m))\<lparr>bot_locked := b\<rparr>, snd (confluence_command w st m))"
  by (simp add: confluence_command_def Let_def execute_ignores_lock execute_for_tokens_ignores_lock
      split: option.splits dex_reply.splits history_read.splits prod.splits)

lemma features_command_ignores_lock:
  "features_command w (st\<lparr>bot_locked := b\<rparr>) m =
     ((fst (features_command w st m))\<lparr>bot_locked := b\<rparr>, snd (features_command w st m))"
  by (simp add: features_command_def Let_def execute_ignores_lock execute_for_tokens_ignores_lock
      split: option.splits dex_reply.splits history_read.splits prod.splits)

lemma about_command_ignores_lock:
  "about_command w (st\<lparr>bot_locked := b\<rparr>) m =
     ((fst (about_command w st m))\<lparr>bot_locked := b\<rparr>, snd (about_command w st m))"
  by (simp add: about_command_def Let_def execute_ignores_lock execute_for_tokens_ignores_lock
      split: option.splits dex_reply.splits history_read.splits prod.splits)

lemma guide_start_command_ignores_lock:
  "guide_start_command w (st\<lparr>bot_locked := b\<rparr>) m =
     ((fst (guide_start_command w st m))\<lparr>bot_locked := b\<rparr>, snd (guide_start_command w st m))"
  by (simp add: guide_start_command_def Let_def execute_ignores_lock execute_for_tokens_ignores_lock
      split: option.splits dex_reply.splits history_read.splits prod.splits)

lemma tutorial_command_ignores_lock:
  "tutorial_command w (st\<lparr>bot_locked := b\<rparr>) m =
     ((fst (tutorial_command w st m))\<lparr>bot_locked := b\<rparr>, snd (tutorial_command w st m))"
  by (simp add: tutorial_command_def Let_def execute_ignores_lock execute_for_tokens_ignores_lock
      split: option.splits dex_reply.splits history_read.splits prod.splits)

lemma set_quantum_strategy_ignores_lock:
  "set_quantum_strategy w (st\<lparr>bot_locked := b\<rparr>) m =
     ((fst (set_quantum_strategy w st m))\<lparr>bot_locked := b\<rparr>, snd (set_quantum_strategy w st m))"
  by (simp add: set_quantum_strategy_def Let_def execute_ignores_lock execute_for_tokens_ignores_lock
      split: option.splits dex_reply.splits history_read.splits prod.splits)

lemma set_momentum_strategy_ignores_lock:
  "set_momentum_strategy w (st\<lparr>bot_locked := b\<rparr>) m =
     ((fst (set_momentum_strategy w st m))\<lparr>bot_locked := b\<rparr>, snd (set_momentum_strategy w st m))"
  by (simp add: set_momentum_strategy_def Let_def execute_ignores_lock execute_for_tokens_ignores_lock
      split: option.splits dex_reply.splits history_read.splits prod.splits)

lemma set_breakout_strategy_ignores_lock:
  "set_breakout_strategy w (st\<lparr>bot_locked := b\<rparr>) m =
     ((fst (set_breakout_strategy w st m))\<lparr>bot_locked := b\<rparr>, snd (set_breakout_strategy w st m))"
  by (simp add: set_breakout_strategy_def Let_def execute_ignores_lock execute_for_tokens_ignores_lock
      split: option.splits dex_reply.splits history_read.splits prod.splits)

lemma set_meanreversion_strategy_ignores_lock:
  "set_meanreversion_strategy w (st\<lparr>bot_locked := b\<rparr>) m =
     ((fst (set_meanreversion_strategy w st m))\<lparr>bot_locked := b\<rparr>, snd (set_meanreversion_strategy w st m))"
  by (simp add: set_meanreversion_strategy_def Let_def execute_ignores_lock execute_for_tokens_ignores_lock
      split: option.splits dex_reply.splits history_read.splits prod.splits)

lemma check_strategy_ignores_lock:
  "check_strategy w (st\<lparr>bot_locked := b\<rparr>) m =
     ((fst (check_strategy w st m))\<lparr>bot_locked := b\<rparr>, snd (check_strategy w st m))"
  by (simp add: check_strategy_def Let_def execute_ignores_lock execute_for_tokens_ignores_lock
      split: option.splits dex_reply.splits history_read.splits prod.splits)

lemma status_command_ignores_lock:
  "status_command w (st\<lparr>bot_locked := b\<rparr>) m =
     ((fst (status_command w st m))\<lparr>bot_locked := b\<rparr>, snd (status_command w st m))"
  by (simp add: status_command_def Let_def execute_ignores_lock execute_for_tokens_ignores_lock
      split: option.splits dex_reply.splits history_read.splits prod.splits)

lemma autoagree_command_ignores_lock:
  "autoagree_command w (st\<lparr>bot_locked := b\<rparr>) m =
     ((fst (autoagree_command w st m))\<lparr>bot_locked := b\<rparr>, snd (autoagree_command w st m))"
  by (simp add: autoagree_command_def Let_def execute_ignores_lock execute_for_tokens_ignores_lock
      split: option.splits dex_reply.splits history_read.splits prod.splits)

lemma auto_execution_command_ignores_lock:
  "auto_execution_command w ADMIN_ID (st\<lparr>bot_locked := b\<rparr>) m =
     ((fst (auto_execution_command w ADMIN_ID st m))\<lparr>bot_locked := b\<rparr>, snd (auto_execution_command w ADMIN_ID st m))"
  by (simp add: auto_execution_command_def Let_def execute_ignores_lock execute_for_tokens_ignores_lock
      split: option.splits dex_reply.splits history_read.splits prod.splits)

lemma auto_execution_status_command_ignores_lock:
  "auto_execution_status_command w ADMIN_ID (st\<lparr>bot_locked := b\<rparr>) m =
     ((fst (auto_execution_status_command w ADMIN_ID st m))\<lparr>bot_locked := b\<rparr>, snd (auto_execution_status_command w ADMIN_ID st m))"
  by (simp add: auto_execution_status_command_def Let_def execute_ignores_lock execute_for_tokens_ignores_lock
      split: option.splits dex_reply.splits history_read.splits prod.splits)

lemma stop_auto_execution_command_ignores_lock:
  "stop_auto_execution_command w ADMIN_ID (st\<lparr>bot_locked := b\<rparr>) m =
     ((fst (stop_auto_execution_command w ADMIN_ID st m))\<lparr>bot_locked := b\<rparr>, snd (stop_auto_execution_command w ADMIN_ID st m))"
  by (simp add: stop_auto_execution_command_def Let_def execute_ignores_lock execute_for_tokens_ignores_lock
      split: option.splits dex_reply.splits history_read.splits prod.splits)

lemma stopauto_command_ignores_lock:
  "stopauto_command w (st\<lparr>bot_locked := b\<rparr>) m =
     ((fst (stopauto_command w st m))\<lparr>bot_locked := b\<rparr>, snd (stopauto_command w st m))"
  by (simp add: stopauto_command_def Let_def execute_ignores_lock execute_for_tokens_ignores_lock
      split: option.splits dex_reply.splits history_read.splits prod.splits)

lemma manual_auto_trade_ignores_lock:
  "manual_auto_trade w ADMIN_ID (st\<lparr>bot_locked := b\<rparr>) m =
     ((fst (manual_auto_trade w ADMIN_ID st m))\<lparr>bot_locked := b\<rparr>, snd (manual_auto_trade w ADMIN_ID st m))"
  by (simp add: manual_auto_trade_def Let_def execute_ignores_lock execute_for_tokens_ignores_lock
      split: option.splits dex_reply.splits history_read.splits prod.splits)

lemma manual_signal_ignores_lock:
  "manual_signal w ADMIN_ID (st\<lparr>bot_locked := b\<rparr>) m =
     ((fst (manual_signal w ADMIN_ID st m))\<lparr>bot_locked := b\<rparr>, snd (manual_signal w ADMIN_ID st m))"
  by (simp add: manual_signal_def Let_def execute_ignores_lock execute_for_tokens_ignores_lock
      split: option.splits dex_reply.splits history_read.splits prod.splits)

lemma pricing_command_ignores_lock:
  "pricing_command w (st\<lparr>bot_locked := b\<rparr>) m =
     ((fst (pricing_command w st m))\<lparr>bot_locked := b\<rparr>, snd (pricing_command w st m))"
  by (simp add: pricing_command_def Let_def execute_ignores_lock execute_for_tokens_ignores_lock
      split: option.splits dex_reply.splits history_read.splits prod.splits)

lemma subscribe_command_ignores_lock:
  "subscribe_command w (st\<lparr>bot_locked := b\<rparr>) m =
     ((fst (subscribe_command w st m))\<lparr>bot_locked := b\<rparr>, snd (subscribe_command w st m))"
  by (simp add: subscribe_command_def Let_def execute_ignores_lock execute_for_tokens_ignores_lock
      split: option.splits dex_reply.splits history_read.splits prod.splits)

lemma payment_command_ignores_lock:
  "payment_command w (st\<lparr>bot_locked := b\<rparr>) m =
     ((fst (payment_command w st m))\<lparr>bot_locked := b\<rparr>, snd (payment_command w st m))"
  by (simp add: payment_command_def Let_def execute_ignores_lock execute_for_tokens_ignores_lock
      split: option.splits dex_reply.splits history_read.splits prod.splits)

lemma verify_command_ignores_lock:
  "verify_command w ADMIN_ID (st\<lparr>bot_locked := b\<rparr>) m =
     ((fst (verify_command w ADMIN_ID st m))\<lparr>bot_locked := b\<rparr>, snd (verify_command w ADMIN_ID st m))"
  by (simp add: verify_command_def Let_def execute_ignores_lock execute_for_tokens_ignores_lock
      split: option.splits dex_reply.splits history_read.splits prod.splits)

lemma contact_command_ignores_lock:
  "contact_command w (st\<lparr>bot_locked := b\<rparr>) m =
     ((fst (contact_command w st m))\<lparr>bot_locked := b\<rparr>, snd (contact_command w st m))"
  by (simp add: contact_command_def Let_def execute_ignores_lock execute_for_tokens_ignores_lock
      split: option.splits dex_reply.splits history_read.splits prod.splits)

lemma members_command_ignores_lock:
  "members_command w ADMIN_ID (st\<lparr>bot_locked := b\<rparr>) m =
     ((fst (members_command w ADMIN_ID st m))\<lparr>bot_locked := b\<rparr>, snd (members_command w ADMIN_ID st m))"
  by (simp add: members_command_def Let_def execute_ignores_lock execute_for_tokens_ignores_lock
      split: option.splits dex_reply.splits history_read.splits prod.splits)

lemma grant_command_ignores_lock:
  "grant_command w ADMIN_ID (st\<lparr>bot_locked := b\<rparr>) m =
     ((fst (grant_command w ADMIN_ID st m))\<lparr>bot_locked := b\<rparr>, snd (grant_command w ADMIN_ID st m))"
  by (simp add: grant_command_def Let_def execute_ignores_lock execute_for_tokens_ignores_lock
      split: option.splits dex_reply.splits history_read.splits prod.splits)

lemma revoke_command_ignores_lock:
  "revoke_command w ADMIN_ID (st\<lparr>bot_locked := b\<rparr>) m =
     ((fst (revoke_command w ADMIN_ID st m))\<lparr>bot_locked := b\<rparr>, snd (revoke_command w ADMIN_ID st m))"
  by (simp add: revoke_command_def Let_def execute_ignores_lock execute_for_tokens_ignores_lock
      split: option.splits dex_reply.splits history_read.splits prod.splits)

lemma broadcast_command_ignores_lock:
  "broadcast_command w ADMIN_ID (st\<lparr>bot_locked := b\<rparr>) m =
     ((fst (broadcast_command w ADMIN_ID st m))\<lparr>bot_locked := b\<rparr>, snd (broadcast_command w ADMIN_ID st m))"
  by (simp add: broadcast_command_def Let_def execute_ignores_lock execute_for_tokens_ignores_lock
      split: option.splits dex_reply.splits history_read.splits prod.splits)

lemma sendsignal_command_ignores_lock:
  "sendsignal_command w ADMIN_ID (st\<lparr>bot_locked := b\<rparr>) m =
     ((fst (sendsignal_command w ADMIN_ID st m))\<lparr>bot_locked := b\<rparr>, snd (sendsignal_command w ADMIN_ID st m))"
  by (simp add: sendsignal_command_def Let_def execute_ignores_lock execute_for_tokens_ignores_lock
      split: option.splits dex_reply.splits history_read.splits prod.splits)

lemma quicksignal_command_ignores_lock:
  "quicksignal_command w ADMIN_ID (st\<lparr>bot_locked := b\<rparr>) m =
     ((fst (quicksignal_command w ADMIN_ID st m))\<lparr>bot_locked := b\<rparr>, snd (quicksignal_command w ADMIN_ID st m))"
  by (simp add: quicksignal_command_def Let_def execute_ignores_lock execute_for_tokens_ignores_lock
      split: option.splits dex_reply.splits history_read.splits prod.splits)

lemma trading_history_ignores_lock:
  "trading_history w (st\<lparr>bot_locked := b\<rparr>) m =
     ((fst (trading_history w st m))\<lparr>bot_locked := b\<rparr>, snd (trading_history w st m))"
  by (simp add: trading_history_def Let_def execute_ignores_lock execute_for_tokens_ignores_lock
      split: option.splits dex_reply.splits history_read.splits prod.splits)

lemma create_ebook_command_ignores_lock:
  "create_ebook_command w ADMIN_ID (st\<lparr>bot_locked := b\<rparr>) m =
     ((fst (create_ebook_command w ADMIN_ID st m))\<lparr>bot_locked := b\<rparr>, snd (create_ebook_command w ADMIN_ID st m))"
  by (simp add: create_ebook_command_def Let_def execute_ignores_lock execute_for_tokens_ignores_lock
      split: option.splits dex_reply.splits history_read.splits prod.splits)

lemma content_empire_command_ignores_lock:
  "content_empire_command w ADMIN_ID (st\<lparr>bot_locked := b\<rparr>) m =
     ((fst (content_empire_command w ADMIN_ID st m))\<lparr>bot_locked := b\<rparr>, snd (content_empire_command w ADMIN_ID st m))"
  by (simp add: content_empire_command_def Let_def execute_ignores_lock execute_for_tokens_ignores_lock
      split: option.splits dex_reply.splits history_read.splits prod.splits)

lemma trading_ebook_command_ignores_lock:
  "trading_ebook_command w ADMIN_ID (st\<lparr>bot_locked := b\<rparr>) m =
     ((fst (trading_ebook_command w ADMIN_ID st m))\<lparr>bot_locked := b\<rparr>, snd (trading_ebook_command w ADMIN_ID st m))"
  by (simp add: trading_ebook_command_def Let_def execute_ignores_lock execute_for_tokens_ignores_lock
      split: option.splits dex_reply.splits history_read.splits prod.splits)

lemma ai_auto_content_command_ignores_lock:
  "ai_auto_content_command w ADMIN_ID (st\<lparr>bot_locked := b\<rparr>) m =
     ((fst (ai_auto_content_command w ADMIN_ID st m))\<lparr>bot_locked := b\<rparr>, snd (ai_auto_content_command w ADMIN_ID st m))"
  by (simp add: ai_auto_content_command_def Let_def execute_ignores_lock execute_for_tokens_ignores_lock
      split: option.splits dex_reply.splits history_read.splits prod.splits)

lemma professional_command_ignores_lock:
  "professional_command w (st\<lparr>bot_locked := b\<rparr>) m =
     ((fst (professional_command w st m))\<lparr>bot_locked := b\<rparr>, snd (professional_command w st m))"
  by (simp add: professional_command_def Let_def execute_ignores_lock execute_for_tokens_ignores_lock
      split: option.splits dex_reply.splits history_read.splits prod.splits)

lemma catch_all_messages_ignores_lock:
  "catch_all_messages w (st\<lparr>bot_locked := b\<rparr>) m =
     ((fst (catch_all_messages w st m))\<lparr>bot_locked := b\<rparr>, snd (catch_all_messages w st m))"
  by (simp add: catch_all_messages_def Let_def execute_ignores_lock execute_for_tokens_ignores_lock
      split: option.splits dex_reply.splits history_read.splits prod.splits)

lemmas handlers_ignore_lock =
  test_command_ignores_lock test_all_commands_ignores_lock start_command_ignores_lock
  menu_strategies_ignores_lock menu_auto_ignores_lock menu_manual_ignores_lock
  menu_analysis_ignores_lock menu_admin_ignores_lock menu_payment_ignores_lock
  menu_info_ignores_lock menu_all_ignores_lock international_command_ignores_lock
  commands_help_ignores_lock analyze_command_ignores_lock signals_command_ignores_lock
  confluence_command_ignores_lock features_command_ignores_lock about_command_ignores_lock
  guide_start_command_ignores_lock tutorial_command_ignores_lock set_quantum_strategy_ignores_lock
  set_momentum_strategy_ignores_lock set_breakout_strategy_ignores_lock set_meanreversion_strategy_ignores_lock
  check_strategy_ignores_lock status_command_ignores_lock autoagree_command_ignores_lock
  auto_execution_command_ignores_lock auto_execution_status_command_ignores_lock stop_auto_execution_command_ignores_lock
  stopauto_command_ignores_lock manual_auto_trade_ignores_lock manual_signal_ignores_lock
  pricing_command_ignores_lock subscribe_command_ignores_lock payment_command_ignores_lock
  verify_command_ignores_lock contact_command_ignores_lock members_command_ignores_lock
  grant_command_ignores_lock revoke_command_ignores_lock broadcast_command_ignores_lock
  sendsignal_command_ignores_lock quicksignal_command_ignores_lock trading_history_ignores_lock
  create_ebook_command_ignores_lock content_empire_command_ignores_lock trading_ebook_command_ignores_lock
  ai_auto_content_command_ignores_lock professional_command_ignores_lock catch_all_messages_ignores_lock

text \<open>
  Claim C9. For every message whose command is neither \<open>lock\<close> nor \<open>unlock\<close>, and for
  every sender, two runs of the dispatcher that start from states differing only in
  \<open>bot_locked\<close> send the same messages and make the same updates: the flag is carried
  through unread. This holds for every registered handler and for the catch-all
  handler. A locked bot therefore refuses nothing.
\<close>

theorem lock_flag_noninterference:
  assumes "extract_command (msg_text m) \<noteq> Some ''lock''"
      and "extract_command (msg_text m) \<noteq> Some ''unlock''"
  shows "handle_message w ADMIN_ID (st\<lparr>bot_locked := b\<rparr>) m =
           ((fst (handle_message w ADMIN_ID st m))\<lparr>bot_locked := b\<rparr>,
            snd (handle_message w ADMIN_ID st m))"
  using assms
  by (cases "extract_command (msg_text m)")
     (simp_all add: handle_message_def handlers_def handlers_ignore_lock)

lemma split_m_signal:
  "str_split (msg_text m_signal) = [''/signal'', ''BUY'', ''0xaaa'', ''0.01'']"
  unfolding m_signal_def by code_simp

lemma command_m_signal: "extract_command (msg_text m_signal) = Some ''signal''"
  using split_m_signal by (simp add: extract_command_def) (simp add: m_signal_def)

lemma dispatch_signal: "dispatch handlers (Some ''signal'') = manual_signal"
  by (simp add: handlers_def)

lemma signal_by_admin:
  "manual_signal w0 1 st m_signal =
     (record_auto_trade w0 0 st ''BUY'' ''0xaaa'' (Fin (1 / 100)) ''DEMO'' [],
      [Template ''manual_signal_executed''
         [V_str ''BUY'', V_str ''0xaaa'', V_flt (Fin (1 / 100)), V_str ''DEMO'']])"
  if "DEMO_MODE st"
proof -
  have u: "ascii_upper ''BUY'' = ''BUY''" "ascii_upper ''demo'' = ''DEMO''" by code_simp+
  have f: "ascii_float ''0.01'' = Some (Fin (1 / 100))" by code_simp
  have t: "take_chars 10 ''0xaaa'' = ''0xaaa''" by code_simp
  have i: "from_user_id m_signal = 1" by (simp add: m_signal_def)
  show ?thesis
    using that
    by (simp add: manual_signal_def i split_m_signal Let_def execute_auto_signal_def w0_def
        reply_else_def u f t)
qed

theorem lock_flag_noninterference_witness:
  "handle_message w0 1 (initial_state\<lparr>bot_locked := True\<rparr>) m_signal =
     ((record_auto_trade w0 0 initial_state ''BUY'' ''0xaaa'' (Fin (1 / 100)) ''DEMO'' [])
        \<lparr>bot_locked := True\<rparr>,
      [Template ''manual_signal_executed''
         [V_str ''BUY'', V_str ''0xaaa'', V_flt (Fin (1 / 100)), V_str ''DEMO'']]) \<and>
   length (auto_trade_history (fst (handle_message w0 1 (initial_state\<lparr>bot_locked := True\<rparr>) m_signal)))
     = 1 \<and>
   auto_trader_running (fst (handle_message w0 1 (initial_state\<lparr>bot_locked := True\<rparr>) m_start)) \<and>
   snd (handle_message w0 1 (initial_state\<lparr>bot_locked := True\<rparr>) m_start) =
     snd (handle_message w0 1 initial_state m_start)"
proof -
  have d: "DEMO_MODE initial_state" by (simp add: initial_state_def)
  have s: "handle_message w0 1 initial_state m_signal =
      (record_auto_trade w0 0 initial_state ''BUY'' ''0xaaa'' (Fin (1 / 100)) ''DEMO'' [],
       [Template ''manual_signal_executed''
          [V_str ''BUY'', V_str ''0xaaa'', V_flt (Fin (1 / 100)), V_str ''DEMO'']])"
    by (simp add: handle_message_def command_m_signal dispatch_signal signal_by_admin [OF d])
  have h: "length (auto_trade_history
      (record_auto_trade w0 0 initial_state ''BUY'' ''0xaaa'' (Fin (1 / 100)) ''DEMO'' [])) = 1"
    by (simp add: record_auto_trade_def initial_state_def)
  show ?thesis
    using lock_flag_noninterference [where m = m_signal and w = w0 and ADMIN_ID = 1
        and st = initial_state and b = True]
      lock_flag_noninterference [where m = m_start and w = w0 and ADMIN_ID = 1
        and st = initial_state and b = True]
    by (simp add: command_m_signal command_m_start s h first_start)
qed


section \<open>Failures inside the engine\<close>

text \<open>
  Claim C4. The engine always returns a list. When anything raises inside its \<open>try\<close>
  block the result is the one label \<open>System Error - Using Fallback\<close>; for an empty
  frame it is the one label \<open>Data Error\<close>; and a scheduler cycle that gets either list
  counts one confirmation, which is fewer than three: it changes no counter (the state
  after the cycle is the state before it).
\<close>

theorem engine_failure_sentinel:
  "(engine_try w symbol tfs = Inl e \<longrightarrow>
      quantum_smart_money_engine_v2 w symbol tfs = [''System Error - Using Fallback'']) \<and>
   except_fallback (engine_on_frame None []) = [''Data Error''] \<and>
   (cycle_confirmations w st t = [''System Error - Using Fallback''] \<or>
    cycle_confirmations w st t = [''Data Error''] \<longrightarrow>
      fst (auto_trade_cycle w st t) = st)"
  by (auto simp add: quantum_smart_money_engine_v2_def except_fallback_def engine_on_frame_def
      auto_trade_cycle_def Let_def)

lemma engine_try_fault:
  "engine_try w_fault symbol tfs = Inl (Py_exception ''MemoryError'')"
  by (simp add: engine_try_def engine_on_frame_def w_fault_def w0_def Let_def)

theorem engine_failure_sentinel_witness:
  "quantum_smart_money_engine_v2 w_fault ''BTCUSDT'' [''15m'', ''1h''] =
     [''System Error - Using Fallback''] \<and>
   fst (auto_trade_cycle w_fault initial_state t0) = initial_state"
proof -
  have c: "cycle_confirmations w_fault initial_state t0 = [''System Error - Using Fallback'']"
    by (simp add: cycle_confirmations_def initial_state_def t0_def
        quantum_smart_money_engine_v2_def engine_try_fault except_fallback_def)
  show ?thesis
    using engine_failure_sentinel [where w = w_fault and symbol = "''BTCUSDT''"
        and tfs = "[''15m'', ''1h'']" and e = "Py_exception ''MemoryError''"
        and st = initial_state and t = t0]
    by (simp add: engine_try_fault c)
qed


section \<open>The fallback of the market-data fetch\<close>

lemma length_mock: "length (generate_mock_data seed state clk limit) = nat limit"
  by (simp add: generate_mock_data_def Let_def)

lemma mock_ohlcv:
  "map ohlcv (generate_mock_data seed state' clk' limit) =
   map ohlcv (generate_mock_data seed state clk limit)"
  by (simp add: generate_mock_data_def Let_def ohlcv_def)

lemma fetch_fallback:
  "(case api w symbol timeframe limit of
      Request_failed \<Rightarrow> True
    | Api_reply retCode rows \<Rightarrow> retCode \<noteq> 0 \<or> rows = []) \<Longrightarrow>
   get_kline_data w symbol timeframe limit =
     generate_mock_data (np_seed w) (np_state w) (clock w) limit"
  by (auto simp add: get_kline_data_def split: api_reply.splits)

subsection \<open>Decimal numerals determine their numbers\<close>

lemma digit_of_char: "k < 10 \<Longrightarrow> of_char (char_of (48 + k :: nat)) = 48 + k"
  by (simp add: of_char_of)

lemma str_nat_value: "foldl (\<lambda>a c. 10 * a + (of_char c - 48)) 0 (str_nat n) = n"
proof (induction n rule: str_nat.induct)
  case (1 n)
  show ?case
  proof (cases "n < 10")
    case True
    then show ?thesis by (subst str_nat.simps) (simp add: digit_of_char)
  next
    case False
    have m: "n mod 10 < 10" by simp
    from False 1 have "foldl (\<lambda>a c. 10 * a + (of_char c - 48)) 0 (str_nat (n div 10)) = n div 10"
      by simp
    with False show ?thesis by (subst str_nat.simps) (simp add: digit_of_char [OF m])
  qed
qed

lemma str_nat_inj: "str_nat m = str_nat n \<Longrightarrow> m = n"
  by (metis str_nat_value)

lemma str_nat_no_minus: "CHR ''-'' \<notin> set (str_nat n)"
proof (induction n rule: str_nat.induct)
  case (1 n)
  have d: "\<And>k. k < 10 \<Longrightarrow> char_of (48 + k :: nat) \<noteq> CHR ''-''"
  proof
    fix k :: nat
    assume "k < 10" and "char_of (48 + k) = CHR ''-''"
    then have "of_char (char_of (48 + k)) = (of_char CHR ''-'' :: nat)" by simp
    with \<open>k < 10\<close> show False by (simp add: digit_of_char)
  qed
  show ?case
  proof (cases "n < 10")
    case True
    then show ?thesis using d [of n] by (subst str_nat.simps) auto
  next
    case False
    have m: "n mod 10 < 10" by simp
    from False 1 have "CHR ''-'' \<notin> set (str_nat (n div 10))" by simp
    with False show ?thesis using d [OF m] by (subst str_nat.simps) auto
  qed
qed

lemma str_int_inj: "str_int i = str_int j \<longleftrightarrow> i = j"
proof
  assume e: "str_int i = str_int j"
  have a: "\<And>m n. CHR ''-'' # str_nat m \<noteq> str_nat n"
    using str_nat_no_minus by (metis list.set_intros(1))
  show "i = j"
  proof (cases "i < 0")
    case True
    show ?thesis
    proof (cases "j < 0")
      case True
      with e \<open>i < 0\<close> have "nat (- i) = nat (- j)" by (simp add: str_int_def str_nat_inj)
      with True \<open>i < 0\<close> show ?thesis by simp
    next
      case False
      with e True a show ?thesis by (simp add: str_int_def)
    qed
  next
    case False
    show ?thesis
    proof (cases "j < 0")
      case True
      with e False a [of "nat (- j)" "nat i"] show ?thesis by (simp add: str_int_def)
    next
      case j: False
      with e False have "nat i = nat j" by (simp add: str_int_def str_nat_inj)
      with False j show ?thesis by simp
    qed
  qed
qed simp

lemma mock_eq_iff:
  "generate_mock_data seed state clk limit = generate_mock_data seed state' clk' limit \<longleftrightarrow>
   (\<forall>i < nat limit. clk i = clk' i)"
  by (auto simp add: generate_mock_data_def Let_def str_int_inj)

text \<open>
  Claim C5, as stated, fails: two fallback calls with the same limit, one second apart
  or more, return frames with different timestamp columns.
\<close>

theorem fallback_not_deterministic:
  "get_kline_data w_late ''BTCUSDT'' ''15'' 1 \<noteq> get_kline_data w0 ''BTCUSDT'' ''15'' 1"
  by (simp add: get_kline_data_def w_late_def w0_def generate_mock_data_def Let_def str_int_def)

text \<open>
  Claim C5, amended. The fetch is total (it raises nothing). Take two calls with the
  same limit, in worlds that differ in all that the fetch reads but the library: the
  answers \<open>a\<close>, \<open>a'\<close> of the exchange, the clocks \<open>c\<close>, \<open>c'\<close> and the states \<open>g\<close>,
  \<open>g'\<close> of numpy's generator before the call; the symbols and timeframes may differ
  too. When both requests fail (the request raises, or the exchange sends an error or no
  rows), each call returns the mock frame, which has \<open>limit\<close> rows (none for a negative
  limit). The price and volume columns of the two frames are equal, because the
  generator is reseeded with 42 at every call. The timestamps are taken from the clock:
  the two frames are identical if and only if the clocks read the same at each of the
  \<open>limit\<close> readings.
\<close>

theorem fetch_falls_back_to_mock:
  fixes w :: world and a a' c c' g g'
  defines "w1 \<equiv> w\<lparr>api := a, clock := c, np_state := g\<rparr>"
  defines "w2 \<equiv> w\<lparr>api := a', clock := c', np_state := g'\<rparr>"
  assumes "case a symbol timeframe limit of
             Request_failed \<Rightarrow> True
           | Api_reply retCode rows \<Rightarrow> retCode \<noteq> 0 \<or> rows = []"
      and "case a' symbol' timeframe' limit of
             Request_failed \<Rightarrow> True
           | Api_reply retCode rows \<Rightarrow> retCode \<noteq> 0 \<or> rows = []"
  shows "length (get_kline_data w1 symbol timeframe limit) = nat limit \<and>
         length (get_kline_data w2 symbol' timeframe' limit) = nat limit \<and>
         map ohlcv (get_kline_data w2 symbol' timeframe' limit) =
           map ohlcv (get_kline_data w1 symbol timeframe limit) \<and>
         (get_kline_data w2 symbol' timeframe' limit = get_kline_data w1 symbol timeframe limit
            \<longleftrightarrow> (\<forall>i < nat limit. c' i = c i))"
proof -
  have 1: "get_kline_data w1 symbol timeframe limit = generate_mock_data (np_seed w) g c limit"
    using assms(3) fetch_fallback [of w1 symbol timeframe limit] by (simp add: w1_def)
  have 2: "get_kline_data w2 symbol' timeframe' limit = generate_mock_data (np_seed w) g' c' limit"
    using assms(4) fetch_fallback [of w2 symbol' timeframe' limit] by (simp add: w2_def)
  show ?thesis
    unfolding 1 2 by (simp add: length_mock mock_ohlcv [of _ g' c' _ g c] mock_eq_iff)
qed

lemma w0_fields: "w0\<lparr>api := api w0, clock := clock w0, np_state := np_state w0\<rparr> = w0"
  by simp

theorem fetch_falls_back_to_mock_witness:
  "length (get_kline_data w0 ''BTCUSDT'' ''15'' 100) = 100 \<and>
   map ohlcv (get_kline_data w_late ''ETHUSDT'' ''60'' 100) =
     map ohlcv (get_kline_data w0 ''BTCUSDT'' ''15'' 100) \<and>
   get_kline_data w_late ''ETHUSDT'' ''60'' 100 \<noteq> get_kline_data w0 ''BTCUSDT'' ''15'' 100 \<and>
   open_price (get_kline_data w0 ''BTCUSDT'' ''15'' 100 ! 0) = 49000 + 2000 / 44 \<and>
   open_price (get_kline_data w0 ''BTCUSDT'' ''15'' 100 ! 1) = 49000 + 2000 / 45"
proof -
  have a: "case api w0 ''BTCUSDT'' ''15'' 100 of
             Request_failed \<Rightarrow> True
           | Api_reply retCode rows \<Rightarrow> retCode \<noteq> 0 \<or> rows = []"
    by (simp add: w0_def)
  have b: "case (\<lambda>s t l. Api_reply 10001 []) ''ETHUSDT'' ''60'' (100 :: int) of
             Request_failed \<Rightarrow> True
           | Api_reply retCode rows \<Rightarrow> retCode \<noteq> 0 \<or> rows = []"
    by simp
  have l: "w0\<lparr>api := \<lambda>s t l. Api_reply 10001 [], clock := \<lambda>i. 60, np_state := \<lambda>i. 1 / 2\<rparr> = w_late"
    by (simp add: w_late_def)
  have c: "\<not> (\<forall>i < nat 100. (60 :: int) = clock w0 i)"
  proof -
    have "(0 :: nat) < nat 100 \<and> (60 :: int) \<noteq> clock w0 0" by (simp add: w0_def)
    then show ?thesis by blast
  qed
  have o: "open_price (get_kline_data w0 ''BTCUSDT'' ''15'' 100 ! 0) = 49000 + 2000 / 44"
          "open_price (get_kline_data w0 ''BTCUSDT'' ''15'' 100 ! 1) = 49000 + 2000 / 45"
    by (simp_all add: get_kline_data_def generate_mock_data_def Let_def w0_def)
  show ?thesis
    using fetch_falls_back_to_mock [where w = w0 and a = "api w0" and c = "clock w0"
        and g = "np_state w0" and a' = "\<lambda>s t l. Api_reply 10001 []" and c' = "\<lambda>i. 60"
        and g' = "\<lambda>i. 1 / 2" and symbol = "''BTCUSDT''" and timeframe = "''15''"
        and symbol' = "''ETHUSDT''" and timeframe' = "''60''" and limit = 100, OF a b] c o
    unfolding w0_fields l by simp
qed


section \<open>The labels of the engine\<close>

subsection \<open>Lengths and last rows of series\<close>

lemma length_rolling_mean [simp]: "length (rolling_mean k xs) = length xs"
  by (simp add: rolling_mean_def)

lemma length_rolling_std [simp]: "length (rolling_std k xs) = length xs"
  by (simp add: rolling_std_def)

lemma length_shift [simp]: "length (shift xs) = length xs"
  by (simp add: shift_def)

lemma length_diff [simp]: "length (diff xs) = length xs"
  by (simp add: diff_def)

lemma length_delta [simp]: "length (delta df) = length df"
  by (simp add: delta_def)

lemma length_gain [simp]: "length (gain df) = length df"
  by (simp add: gain_def)

lemma length_loss [simp]: "length (loss df) = length df"
  by (simp add: loss_def)

lemma length_rsi [simp]: "length (rsi df) = length df"
  by (simp add: rsi_def)

lemma length_tail [simp]: "length (tail k xs) = min k (length xs)"
  by (simp add: tail_def)


lemma tail_all: "length xs \<le> k \<Longrightarrow> tail k xs = xs"
  by (simp add: tail_def)

lemma tail_Nil_iff: "tail k xs = [] \<longleftrightarrow> xs = [] \<or> k = 0"
proof -
  have "length xs \<le> length xs - k \<longleftrightarrow> length xs = 0 \<or> k = 0" by arith
  then show ?thesis by (simp add: tail_def)
qed

lemma iloc_neg_last: "xs \<noteq> [] \<Longrightarrow> iloc_neg xs (Suc 0) = last xs"
  by (simp add: iloc_neg_def last_conv_nth)

lemma sort_key_Nil_iff: "sort_key f xs = [] \<longleftrightarrow> xs = []"
  by (metis length_sort length_0_conv)

lemma fetch_100_nonempty: "get_kline_data w symbol tf 100 \<noteq> []"
  by (auto simp add: get_kline_data_def generate_mock_data_def Let_def sort_key_Nil_iff
      split: api_reply.splits)

lemma engine_no_fault:
  "fault w = None \<Longrightarrow>
   quantum_smart_money_engine_v2 w symbol tfs =
     quantum_confirmations (get_kline_data w symbol (if tfs \<noteq> [] then hd tfs else ''15'') 100)"
  by (simp add: quantum_smart_money_engine_v2_def engine_try_def engine_on_frame_def
      except_fallback_def Let_def fetch_100_nonempty)

subsection \<open>The engine on the three-row frame\<close>

lemma upt3: "[0..<3] = [0, 1, 2]" "[0..<Suc 0] = [0]"
  by (simp_all add: upt_rec)

lemma df3_order_blocks: "detect_order_blocks df3 = False"
  by (simp add: detect_order_blocks_def df3_def)

lemma df3_fair_value_gap: "detect_fair_value_gap df3 = True"
  by (simp add: detect_fair_value_gap_def df3_def series_mean_def mean_def fgt_def upt3)

lemma df3_bos_break: "bos_break df3 = False"
  by (simp add: bos_break_def df3_def series_max_def tail_def current_price_def iloc_neg_def
      fgt_def)

lemma df3_ema_cross: "ema_cross df3 = True"
  by (simp add: ema_cross_def calculate_ema_def ewm_mean_def df3_def iloc_neg_def)

lemma df3_macd_signal: "macd_signal df3 = True"
  by (simp add: macd_signal_def calculate_macd_def calculate_ema_def ewm_mean_def df3_def
      iloc_neg_def Let_def)

lemma df3_supertrend_buy: "supertrend_buy df3 = False"
  by (simp add: supertrend_buy_def calculate_supertrend_def calculate_atr_def rolling_mean_def
      window_at_def df3_def iloc_neg_def Let_def shift_def upt3 fgt_def)

lemma df3_boll_band_squeeze: "boll_band_squeeze df3 = False"
  by (simp add: boll_band_squeeze_def calculate_bollinger_bands_def df3_def Let_def)

lemma df3_volume_spike: "volume_spike df3 = True"
  by (simp add: volume_spike_def series_mean_def mean_def tail_def df3_def iloc_neg_def fgt_def)

lemma df3_breakout_detected: "breakout_detected df3 = False"
  by (simp add: breakout_detected_def series_max_def series_min_def tail_def current_price_def
      df3_def iloc_neg_def fgt_def)

lemma df3_hidden_div: "hidden_div df3 = False"
  by (simp add: hidden_div_def rsi_def gain_def loss_def delta_def rolling_mean_def window_at_def
      diff_def shift_def df3_def iloc_neg_def upt3 fsub_def)

lemmas df3_signals = df3_order_blocks df3_fair_value_gap df3_bos_break df3_ema_cross
  df3_macd_signal df3_supertrend_buy df3_boll_band_squeeze df3_volume_spike
  df3_breakout_detected df3_hidden_div

lemma df3_before_filter:
  "signals_before_filter df3 = [''Fair Value Gap'', ''EMA + MACD Confluence'', ''Volume Surge'']"
  by (simp add: signals_before_filter_def df3_signals label_if_def)

lemma df3_confirmations:
  "quantum_confirmations df3 =
     [''Fair Value Gap'', ''EMA + MACD Confluence'', ''Volume Surge'', quantum_approval_label]"
  by (simp add: quantum_confirmations_def df3_before_filter quantum_approval_def df3_signals
      label_if_def)

lemma fetch_w3: "get_kline_data w3 s t l = df3"
proof -
  have "sort_key timestamp df3 = df3" by (simp add: df3_def)
  moreover have "df3 \<noteq> []" by (simp add: df3_def)
  ultimately show ?thesis by (simp add: get_kline_data_def w3_def w0_def)
qed

lemma engine_w3:
  "quantum_smart_money_engine_v2 w3 s tfs =
     [''Fair Value Gap'', ''EMA + MACD Confluence'', ''Volume Surge'', quantum_approval_label]"
proof -
  have "fault w3 = None" by (simp add: w3_def w0_def)
  then show ?thesis by (simp add: engine_no_fault fetch_w3 df3_confirmations)
qed

subsection \<open>The quantum approval gate\<close>

lemma label_not_before: "quantum_approval_label \<notin> set (signals_before_filter df)"
  by (simp add: signals_before_filter_def label_if_def quantum_approval_label_def)

lemma volume_spike_eq:
  "df \<noteq> [] \<Longrightarrow>
   volume_spike df \<longleftrightarrow> volume (last df) > mean (tail 20 (map volume df)) * 1.5"
  by (simp add: volume_spike_def series_mean_def tail_Nil_iff iloc_neg_last fgt_def Let_def
      last_map)

text \<open>
  Claim C1. For the frame \<open>df\<close> that the engine evaluates (no exception inside the
  \<open>try\<close> block), the approval label is in the result if and only if at least three
  labels were appended before it, the last volume exceeds 1.5 times the mean of the last
  20 volumes, and the EMA 9/21 cross or the MACD cross holds. When it is in the result
  it is the last element, after the labels appended before; when it is not, the result
  is those labels.
\<close>

theorem quantum_approval_gate:
  fixes w symbol tfs
  assumes "fault w = None"
  defines "df \<equiv> get_kline_data w symbol (if tfs \<noteq> [] then hd tfs else ''15'') 100"
  defines "result \<equiv> quantum_smart_money_engine_v2 w symbol tfs"
  shows "(quantum_approval_label \<in> set result \<longleftrightarrow>
            3 \<le> length (signals_before_filter df) \<and>
            volume (last df) > mean (tail 20 (map volume df)) * 1.5 \<and>
            (ema_cross df \<or> macd_signal df)) \<and>
         (quantum_approval_label \<in> set result \<longrightarrow>
            result = signals_before_filter df @ [quantum_approval_label] \<and>
            last result = quantum_approval_label) \<and>
         (quantum_approval_label \<notin> set result \<longrightarrow> result = signals_before_filter df)"
proof -
  have ne: "df \<noteq> []" unfolding df_def by (rule fetch_100_nonempty)
  have res: "result =
      signals_before_filter df @ label_if (quantum_approval df) quantum_approval_label"
    unfolding result_def df_def using assms(1)
    by (simp add: engine_no_fault quantum_confirmations_def)
  have mem: "quantum_approval_label \<in> set result \<longleftrightarrow> quantum_approval df"
    unfolding res using label_not_before [of df] by (simp add: label_if_def)
  have gate: "quantum_approval df \<longleftrightarrow>
      3 \<le> length (signals_before_filter df) \<and>
      volume (last df) > mean (tail 20 (map volume df)) * 1.5 \<and>
      (ema_cross df \<or> macd_signal df)"
    using volume_spike_eq [OF ne] by (simp add: quantum_approval_def Let_def)
  show ?thesis
    using mem gate res by (simp add: label_if_def)
qed

theorem quantum_approval_gate_witness:
  "quantum_approval_label \<in> set (quantum_smart_money_engine_v2 w3 ''BTCUSDT'' [''15'']) \<and>
   quantum_smart_money_engine_v2 w3 ''BTCUSDT'' [''15''] =
     [''Fair Value Gap'', ''EMA + MACD Confluence'', ''Volume Surge'', quantum_approval_label]"
proof -
  have f: "fault w3 = None" by (simp add: w3_def w0_def)
  have v: "volume (last df3) > mean (tail 20 (map volume df3)) * 1.5"
    by (simp add: df3_def tail_def mean_def)
  show ?thesis
    using quantum_approval_gate [OF f, of "''BTCUSDT''" "[''15'']"] v
    by (simp add: fetch_w3 df3_before_filter df3_ema_cross)
qed

subsection \<open>Order and number of the labels\<close>

lemma subseq_label_if: "subseq ys zs \<Longrightarrow> subseq (label_if c x @ ys) (x # zs)"
  by (auto simp add: label_if_def)

lemma subseq_label_if_last: "subseq (label_if c x) [x]"
  by (simp add: label_if_def)

lemma subseq_distinct: "subseq xs ys \<Longrightarrow> distinct ys \<Longrightarrow> distinct xs"
  by (auto simp add: subseq_conv_nths intro: distinct_nthsI)

lemma confirmations_subseq: "subseq (quantum_confirmations df) candidates"
  unfolding quantum_confirmations_def signals_before_filter_def candidates_def append_assoc
  by (intro subseq_label_if subseq_label_if_last)

lemma distinct_candidates: "distinct candidates"
  by (simp add: candidates_def quantum_approval_label_def)

lemma length_candidates: "length candidates = 10"
  by (simp add: candidates_def)

text \<open>
  Claim C3. A result of the engine that is neither of the two error lists is a
  subsequence of the ten candidate labels in their fixed order; so it has at most ten
  labels and none twice.
\<close>

theorem confirmations_in_candidate_order:
  assumes "quantum_smart_money_engine_v2 w symbol tfs \<noteq> [''System Error - Using Fallback'']"
      and "quantum_smart_money_engine_v2 w symbol tfs \<noteq> [''Data Error'']"
  shows "subseq (quantum_smart_money_engine_v2 w symbol tfs) candidates \<and>
         length (quantum_smart_money_engine_v2 w symbol tfs) \<le> 10 \<and>
         distinct (quantum_smart_money_engine_v2 w symbol tfs)"
proof -
  from assms obtain df where
    r: "quantum_smart_money_engine_v2 w symbol tfs = quantum_confirmations df"
    by (auto simp add: quantum_smart_money_engine_v2_def engine_try_def engine_on_frame_def
        except_fallback_def Let_def split: option.splits if_splits)
  have s: "subseq (quantum_confirmations df) candidates" by (rule confirmations_subseq)
  from s have "length (quantum_confirmations df) \<le> length candidates"
    by (rule list_emb_length)
  moreover from s distinct_candidates have "distinct (quantum_confirmations df)"
    by (rule subseq_distinct)
  ultimately show ?thesis using s r by (simp add: length_candidates)
qed

theorem confirmations_in_candidate_order_witness:
  "subseq [''Fair Value Gap'', ''EMA + MACD Confluence'', ''Volume Surge'', quantum_approval_label]
     candidates \<and>
   subseq (quantum_smart_money_engine_v2 w3 ''BTCUSDT'' [''15'']) candidates \<and>
   distinct (quantum_smart_money_engine_v2 w3 ''BTCUSDT'' [''15''])"
  using confirmations_in_candidate_order [of w3 "''BTCUSDT''" "[''15'']"]
  by (simp add: engine_w3 quantum_approval_label_def)


section \<open>The RSI when the window has no loss\<close>

lemma fadd_NaN_right [simp]: "fadd a NaN = NaN"
  by (cases a) simp_all


































end
